theory Spec2Isabelle
  imports Main
begin

section \<open>Python values and the operations the scripts apply to them\<close>

text \<open>
  The three designer scripts (odd_temp_veb.py, odoo_template_temp.py and odoolong1.py) handle
  two kinds of dynamically typed data: the template document read by \<^verbatim>\<open>json.load\<close> and the
  values the XML-RPC proxy returns. Both are values of \<open>pyval\<close>. A \<^verbatim>\<open>str\<close> is held as its
  UTF-8 bytes; a \<^verbatim>\<open>dict\<close> has string keys (JSON objects and XML-RPC structs have no others) and
  is an association list in insertion order, read with \<open>map_of\<close> (the first entry of a key
  is the one that counts). Floating point numbers are left out.
\<close>

datatype pyval =
    PNone
  | PBool bool
  | PInt int
  | PStr string
  | PList "pyval list"
  | PDict "(string \<times> pyval) list"

text \<open>
  The exceptions the scripts can meet. \<open>Fault\<close> stands for anything
  \<^verbatim>\<open>execute_kw\<close> raises (an XML-RPC fault, a protocol or socket error, a value that cannot
  be marshalled). No handler in the scripts looks at the kind of the exception.
\<close>

datatype exn = KeyError | TypeError | IndexError | AttributeError | Fault

definition ebind :: "exn + 'a \<Rightarrow> ('a \<Rightarrow> exn + 'b) \<Rightarrow> exn + 'b" where
  "ebind m f = (case m of Inl e \<Rightarrow> Inl e | Inr x \<Rightarrow> f x)"

text \<open>Truth value testing, as \<^verbatim>\<open>if x\<close> and \<^verbatim>\<open>not x\<close> do it.\<close>

fun truthy :: "pyval \<Rightarrow> bool" where
  "truthy PNone = False"
| "truthy (PBool b) = b"
| "truthy (PInt n) = (n \<noteq> 0)"
| "truthy (PStr s) = (s \<noteq> [])"
| "truthy (PList xs) = (xs \<noteq> [])"
| "truthy (PDict kvs) = (kvs \<noteq> [])"

text \<open>
  A byte \<open>10xxxxxx\<close> continues a UTF-8 sequence; every other byte starts a code point.
  \<open>codepoints\<close> splits the bytes of a \<^verbatim>\<open>str\<close> into its characters.
\<close>

definition is_continuation :: "char \<Rightarrow> bool" where
  "is_continuation c = (128 \<le> (of_char c :: nat) \<and> (of_char c :: nat) < 192)"

function codepoints :: "string \<Rightarrow> string list" where
  "codepoints [] = []"
| "codepoints (c # cs) =
     (c # takeWhile is_continuation cs) # codepoints (dropWhile is_continuation cs)"
  by pat_completeness auto
termination
  by (relation "measure length") (auto simp: le_imp_less_Suc length_dropWhile_le)

text \<open>\<^verbatim>\<open>len(x)\<close>: defined on strings, lists and dicts, a TypeError elsewhere.\<close>

fun pylen :: "pyval \<Rightarrow> exn + nat" where
  "pylen (PStr s) = Inr (length (codepoints s))"
| "pylen (PList xs) = Inr (length xs)"
| "pylen (PDict kvs) = Inr (length kvs)"
| "pylen v = Inl TypeError"

text \<open>
  \<^verbatim>\<open>for item in x\<close>: the elements of a list, the characters of a string, the keys of a dict,
  a TypeError elsewhere.
\<close>

fun py_iter :: "pyval \<Rightarrow> exn + pyval list" where
  "py_iter (PList xs) = Inr xs"
| "py_iter (PStr s) = Inr (map PStr (codepoints s))"
| "py_iter (PDict kvs) = Inr (map (\<lambda>kv. PStr (fst kv)) kvs)"
| "py_iter v = Inl TypeError"

text \<open>
  \<^verbatim>\<open>x[0]\<close>: the first element of a list, the first character of a string; an IndexError when
  they are empty, a KeyError on a dict (its keys are strings), a TypeError elsewhere.
\<close>

fun index0 :: "pyval \<Rightarrow> exn + pyval" where
  "index0 (PList []) = Inl IndexError"
| "index0 (PList (x # xs)) = Inr x"
| "index0 (PStr []) = Inl IndexError"
| "index0 (PStr (c # cs)) = Inr (PStr (c # takeWhile is_continuation cs))"
| "index0 (PDict kvs) = Inl KeyError"
| "index0 v = Inl TypeError"

text \<open>\<^verbatim>\<open>x['key']\<close>: a lookup on a dict, with a KeyError when the key is absent; a TypeError elsewhere.\<close>

fun subscript :: "string \<Rightarrow> pyval \<Rightarrow> exn + pyval" where
  "subscript k (PDict kvs) = (case map_of kvs k of None \<Rightarrow> Inl KeyError | Some v \<Rightarrow> Inr v)"
| "subscript k v = Inl TypeError"

text \<open>\<^verbatim>\<open>x.get('key', default)\<close>: only a dict has the method.\<close>

fun get_method :: "string \<Rightarrow> pyval \<Rightarrow> pyval \<Rightarrow> exn + pyval" where
  "get_method k d (PDict kvs) = (case map_of kvs k of None \<Rightarrow> Inr d | Some v \<Rightarrow> Inr v)"
| "get_method k d v = Inl AttributeError"

text \<open>
  \<^verbatim>\<open>'needle' in s\<close> on strings is a substring test. The needles of the scripts are ASCII, and
  an ASCII byte never lies inside a longer UTF-8 sequence, so the test on bytes agrees with
  the test on characters.
\<close>

fun is_prefix :: "string \<Rightarrow> string \<Rightarrow> bool" where
  "is_prefix [] ys = True"
| "is_prefix (x # xs) [] = False"
| "is_prefix (x # xs) (y # ys) = (x = y \<and> is_prefix xs ys)"

fun substring :: "string \<Rightarrow> string \<Rightarrow> bool" where
  "substring sub [] = is_prefix sub []"
| "substring sub (c # cs) = (is_prefix sub (c # cs) \<or> substring sub cs)"

text \<open>
  \<^verbatim>\<open>'key' in x\<close>: a key of a dict, an element of a list, a substring of a string; a TypeError
  elsewhere.
\<close>

fun py_in :: "string \<Rightarrow> pyval \<Rightarrow> exn + bool" where
  "py_in k (PDict kvs) = Inr (map_of kvs k \<noteq> None)"
| "py_in k (PList xs) = Inr (PStr k \<in> set xs)"
| "py_in k (PStr s) = Inr (substring k s)"
| "py_in k v = Inl TypeError"

text \<open>
  \<^verbatim>\<open>s.lower()\<close>, on the ASCII letters. Python also lowers letters beyond ASCII; their lower
  case forms never contain a letter of the needle \<^verbatim>\<open>temperatura\<close>, the only string the result
  is searched for, so the test \<^verbatim>\<open>'temperatura' in s.lower()\<close> has the same outcome.
  Only a \<^verbatim>\<open>str\<close> has the method.
\<close>

definition lower_char :: "char \<Rightarrow> char" where
  "lower_char c =
     (case map_of (zip ''ABCDEFGHIJKLMNOPQRSTUVWXYZ'' ''abcdefghijklmnopqrstuvwxyz'') c of
        None \<Rightarrow> c
      | Some l \<Rightarrow> l)"

fun py_lower :: "pyval \<Rightarrow> exn + string" where
  "py_lower (PStr s) = Inr (map lower_char s)"
| "py_lower v = Inl AttributeError"

text \<open>\<^verbatim>\<open>s.replace('.', '_')\<close> on the bytes of a string.\<close>

definition replace_dots :: "string \<Rightarrow> string" where
  "replace_dots s = map (\<lambda>c. if c = CHR ''.'' then CHR ''_'' else c) s"

text \<open>\<^verbatim>\<open>'literal' + x\<close> with a string literal on the left: a TypeError unless \<open>x\<close> is a string.\<close>

fun str_of_operand :: "pyval \<Rightarrow> exn + string" where
  "str_of_operand (PStr s) = Inr s"
| "str_of_operand v = Inl TypeError"

text \<open>\<^verbatim>\<open>', '.join(xs)\<close>: a TypeError unless every item is a string.\<close>

fun join_comma :: "pyval list \<Rightarrow> exn + string" where
  "join_comma [] = Inr []"
| "join_comma [x] = str_of_operand x"
| "join_comma (x # y # ys) =
     ebind (str_of_operand x) (\<lambda>s. ebind (join_comma (y # ys)) (\<lambda>t. Inr (s @ '', '' @ t)))"

section \<open>The remote system and the world a run acts on\<close>

text \<open>
  One remote call: \<^verbatim>\<open>_execute(model, method, *args)\<close>. The scripts never pass keyword
  arguments, so \<^verbatim>\<open>kwargs\<close> is always empty and is left out.
\<close>

datatype rpc = Rpc (rpc_model: string) (rpc_method: string) (rpc_args: "pyval list")

text \<open>
  What lies outside the repository is a parameter: \<open>execute_kw\<close> is the XML-RPC proxy with
  the server behind it, a function of a hidden remote state that answers with a value or
  raises (\<open>None\<close>); \<open>py_repr\<close> is what Python's \<^verbatim>\<open>str()\<close> builds from a value that is
  not a string.
\<close>

record 'r host =
  execute_kw :: "'r \<Rightarrow> rpc \<Rightarrow> pyval option \<times> 'r"
  py_repr :: "pyval \<Rightarrow> string"

text \<open>The world: the remote state and the calls issued so far, oldest first.\<close>

record 'r world =
  remote :: 'r
  trace :: "rpc list"

text \<open>
  A method of the designer class takes the world and returns a value or an exception,
  with the world it leaves behind. Console output is not part of the model.
\<close>

type_synonym ('r, 'a) prog = "'r world \<Rightarrow> (exn + 'a) \<times> 'r world"

definition ret :: "'a \<Rightarrow> ('r, 'a) prog" where
  "ret x = (\<lambda>w. (Inr x, w))"

definition lift :: "exn + 'a \<Rightarrow> ('r, 'a) prog" where
  "lift m = (\<lambda>w. (m, w))"

definition bind :: "('r, 'a) prog \<Rightarrow> ('a \<Rightarrow> ('r, 'b) prog) \<Rightarrow> ('r, 'b) prog" where
  "bind m f = (\<lambda>w. case m w of (Inl e, w') \<Rightarrow> (Inl e, w') | (Inr x, w') \<Rightarrow> f x w')"

text \<open>\<^verbatim>\<open>try: m  except Exception: return d\<close>.\<close>

definition try_except :: "('r, 'a) prog \<Rightarrow> 'a \<Rightarrow> ('r, 'a) prog" where
  "try_except m d = (\<lambda>w. case m w of (Inl e, w') \<Rightarrow> (Inr d, w') | (Inr x, w') \<Rightarrow> (Inr x, w'))"

text \<open>\<^verbatim>\<open>_execute\<close>: the call is recorded, whatever its outcome.\<close>

definition execute :: "'r host \<Rightarrow> rpc \<Rightarrow> ('r, pyval) prog" where
  "execute h c = (\<lambda>w. case execute_kw h (remote w) c of
      (None, r') \<Rightarrow> (Inl Fault, \<lparr>remote = r', trace = trace w @ [c]\<rparr>)
    | (Some v, r') \<Rightarrow> (Inr v, \<lparr>remote = r', trace = trace w @ [c]\<rparr>))"

text \<open>\<^verbatim>\<open>str(x)\<close>: a string is returned as it is.\<close>

definition py_str :: "'r host \<Rightarrow> pyval \<Rightarrow> string" where
  "py_str h v = (case v of PStr s \<Rightarrow> s | _ \<Rightarrow> py_repr h v)"

section \<open>The hard-coded layouts\<close>

text \<open>The opening literal shared by every generator.\<close>

definition form_open :: string where
  \<open>form_open =
    ''<form string="''\<close>

text \<open>The literal that follows the template name in \<^verbatim>\<open>generate_worksheet_xml_vibracion\<close> (odd_temp_veb.py), source lines 1 to 40 of the literal.\<close>

definition vibracion_xml_body_1 :: string where
  \<open>vibracion_xml_body_1 =
    ''">\<newline>'' @
    ''    <sheet>\<newline>'' @
    ''        <div class="oe_title">\<newline>'' @
    ''            <h1>Test de vibraci'' @ [CHR 0xC3, CHR 0xB3] @ ''n</h1>\<newline>'' @
    ''        </div>\<newline>'' @
    ''        \<newline>'' @
    ''        <group string="Informaci'' @ [CHR 0xC3, CHR 0xB3] @ ''n del Equipo" col="2">\<newline>'' @
    ''            <field name="x_assistance_code"/>\<newline>'' @
    ''            <field name="x_client"/>\<newline>'' @
    ''            <field name="x_model"/>\<newline>'' @
    ''            <field name="x_project"/>\<newline>'' @
    ''            <field name="x_serial_number"/>\<newline>'' @
    ''        </group>\<newline>'' @
    ''        \<newline>'' @
    ''        <separator string="1. Test de vibraci'' @ [CHR 0xC3, CHR 0xB3] @ ''n"/>\<newline>'' @
    ''        \<newline>'' @
    ''        <group string="1.1. Objetivo">\<newline>'' @
    ''            <field name="x_test_objective" widget="text" readonly="1"/>\<newline>'' @
    ''        </group>\<newline>'' @
    ''        \<newline>'' @
    ''        <group string="1.2. Procedimiento">\<newline>'' @
    ''            <field name="x_test_procedure" widget="text" readonly="1"/>\<newline>'' @
    ''        </group>\<newline>'' @
    ''        \<newline>'' @
    ''        <group string="1.3. M'' @ [CHR 0xC3, CHR 0xA9] @ ''todo">\<newline>'' @
    ''            <field name="x_test_method" widget="text" readonly="1"/>\<newline>'' @
    ''        </group>\<newline>'' @
    ''        \<newline>'' @
    ''        <group string="1.4. Criterio de aceptaci'' @ [CHR 0xC3, CHR 0xB3] @ ''n">\<newline>'' @
    ''            <field name="x_acceptance_criteria" widget="text" readonly="1"/>\<newline>'' @
    ''        </group>\<newline>'' @
    ''        \<newline>'' @
    ''        <separator string="1.5. Instrumento de medici'' @ [CHR 0xC3, CHR 0xB3] @ ''n"/>\<newline>'' @
    ''        \<newline>'' @
    ''        <group col="4">\<newline>'' @
    ''            <field name="x_instrument_brand_model"/>\<newline>'' @
    ''            <field name="x_instrument_serial"/>\<newline>'' @
    ''            <field name="x_calibration_certificate"/>\<newline>'' @
    ''            <field name="x_calibration_date"/>\<newline>'' @
    ''        </group>\<newline>''\<close>

text \<open>The literal that follows the template name in \<^verbatim>\<open>generate_worksheet_xml_vibracion\<close> (odd_temp_veb.py), source lines 41 to 80 of the literal.\<close>

definition vibracion_xml_body_2 :: string where
  \<open>vibracion_xml_body_2 =
    ''        \<newline>'' @
    ''        <separator string="1.6. Datos de la prueba - Reglajes"/>\<newline>'' @
    ''        \<newline>'' @
    ''        <group col="4">\<newline>'' @
    ''            <field name="x_limit_1"/>\<newline>'' @
    ''            <field name="x_limit_2"/>\<newline>'' @
    ''            <field name="x_max_speed"/>\<newline>'' @
    ''            <field name="x_test_weights"/>\<newline>'' @
    ''        </group>\<newline>'' @
    ''        \<newline>'' @
    ''        <separator string="Ensayo 1"/>\<newline>'' @
    ''        <group col="4">\<newline>'' @
    ''            <field name="x_test_1_imbalance"/>\<newline>'' @
    ''            <newline/>\<newline>'' @
    ''            <field name="x_test_1_speed_50"/>\<newline>'' @
    ''            <field name="x_test_1_vibration_50"/>\<newline>'' @
    ''            <field name="x_test_1_speed_75"/>\<newline>'' @
    ''            <field name="x_test_1_vibration_75"/>\<newline>'' @
    ''            <field name="x_test_1_speed_100"/>\<newline>'' @
    ''            <field name="x_test_1_vibration_100"/>\<newline>'' @
    ''        </group>\<newline>'' @
    ''        <group>\<newline>'' @
    ''            <field name="x_test_1_comments" widget="text" nolabel="1" placeholder="Comentarios Ensayo 1"/>\<newline>'' @
    ''        </group>\<newline>'' @
    ''        \<newline>'' @
    ''        <separator string="Ensayo 2"/>\<newline>'' @
    ''        <group col="4">\<newline>'' @
    ''            <field name="x_test_2_imbalance"/>\<newline>'' @
    ''            <newline/>\<newline>'' @
    ''            <field name="x_test_2_speed_50"/>\<newline>'' @
    ''            <field name="x_test_2_vibration_50"/>\<newline>'' @
    ''            <field name="x_test_2_speed_75"/>\<newline>'' @
    ''            <field name="x_test_2_vibration_75"/>\<newline>'' @
    ''            <field name="x_test_2_speed_100"/>\<newline>'' @
    ''            <field name="x_test_2_vibration_100"/>\<newline>'' @
    ''        </group>\<newline>'' @
    ''        <group>\<newline>'' @
    ''            <field name="x_test_2_comments" widget="text" nolabel="1" placeholder="Comentarios Ensayo 2"/>\<newline>'' @
    ''        </group>\<newline>'' @
    ''        \<newline>''\<close>

text \<open>The literal that follows the template name in \<^verbatim>\<open>generate_worksheet_xml_vibracion\<close> (odd_temp_veb.py), source lines 81 to 113 of the literal.\<close>

definition vibracion_xml_body_3 :: string where
  \<open>vibracion_xml_body_3 =
    ''        <separator string="Ensayo 3"/>\<newline>'' @
    ''        <group col="4">\<newline>'' @
    ''            <field name="x_test_3_imbalance"/>\<newline>'' @
    ''            <newline/>\<newline>'' @
    ''            <field name="x_test_3_speed_50"/>\<newline>'' @
    ''            <field name="x_test_3_vibration_50"/>\<newline>'' @
    ''            <field name="x_test_3_speed_75"/>\<newline>'' @
    ''            <field name="x_test_3_vibration_75"/>\<newline>'' @
    ''            <field name="x_test_3_speed_100"/>\<newline>'' @
    ''            <field name="x_test_3_vibration_100"/>\<newline>'' @
    ''        </group>\<newline>'' @
    ''        <group>\<newline>'' @
    ''            <field name="x_test_3_comments" widget="text" nolabel="1" placeholder="Comentarios Ensayo 3"/>\<newline>'' @
    ''        </group>\<newline>'' @
    ''        \<newline>'' @
    ''        <separator string="1.7. Resultados test"/>\<newline>'' @
    ''        \<newline>'' @
    ''        <group>\<newline>'' @
    ''            <field name="x_test_comments" widget="text" placeholder="Comentarios generales"/>\<newline>'' @
    ''            <field name="x_result_status" widget="radio"/>\<newline>'' @
    ''        </group>\<newline>'' @
    ''        \<newline>'' @
    ''        <separator/>\<newline>'' @
    ''        \<newline>'' @
    ''        <group col="4">\<newline>'' @
    ''            <field name="x_performed_by"/>\<newline>'' @
    ''            <field name="x_department"/>\<newline>'' @
    ''            <field name="x_test_date"/>\<newline>'' @
    ''            <field name="x_signature"/>\<newline>'' @
    ''        </group>\<newline>'' @
    ''        \<newline>'' @
    ''    </sheet>\<newline>'' @
    ''</form>''\<close>

definition vibracion_xml_body :: string where
  \<open>vibracion_xml_body = vibracion_xml_body_1 @ vibracion_xml_body_2 @ vibracion_xml_body_3\<close>

text \<open>The literal between the two occurrences of the template name in the hermiticity and centrifuge generators.\<close>

definition title_open :: string where
  \<open>title_open =
    ''">\<newline>'' @
    ''    <sheet>\<newline>'' @
    ''        <div class="oe_title">\<newline>'' @
    ''            <h1>''\<close>

text \<open>The closing literal of \<^verbatim>\<open>generate_worksheet_xml_hermiticity\<close> (odoo_template_temp.py), source lines 1 to 40 of the literal.\<close>

definition hermiticity_xml_body_1 :: string where
  \<open>hermiticity_xml_body_1 =
    ''</h1>\<newline>'' @
    ''        </div>\<newline>'' @
    ''        \<newline>'' @
    ''        <group string="Informaci'' @ [CHR 0xC3, CHR 0xB3] @ ''n del Equipo" col="2">\<newline>'' @
    ''            <field name="x_assistance_code"/>\<newline>'' @
    ''            <field name="x_client"/>\<newline>'' @
    ''            <field name="x_model"/>\<newline>'' @
    ''            <field name="x_project_name"/>\<newline>'' @
    ''            <field name="x_serial_number"/>\<newline>'' @
    ''        </group>\<newline>'' @
    ''        \<newline>'' @
    ''        <separator string="1. Test de hermeticidad"/>\<newline>'' @
    ''        \<newline>'' @
    ''        <group string="1.1. Objetivo">\<newline>'' @
    ''            <field name="x_test_objective" widget="text" readonly="1"/>\<newline>'' @
    ''        </group>\<newline>'' @
    ''        \<newline>'' @
    ''        <group string="1.2. Procedimiento">\<newline>'' @
    ''            <field name="x_test_procedure" widget="text" readonly="1"/>\<newline>'' @
    ''        </group>\<newline>'' @
    ''        \<newline>'' @
    ''        <group string="1.3. M'' @ [CHR 0xC3, CHR 0xA9] @ ''todo">\<newline>'' @
    ''            <field name="x_test_method" widget="text" readonly="1"/>\<newline>'' @
    ''        </group>\<newline>'' @
    ''        \<newline>'' @
    ''        <group string="1.4. Criterio de aceptaci'' @ [CHR 0xC3, CHR 0xB3] @ ''n">\<newline>'' @
    ''            <field name="x_acceptance_criteria" widget="text" readonly="1"/>\<newline>'' @
    ''        </group>\<newline>'' @
    ''        \<newline>'' @
    ''        <separator string="1.5. Datos de la prueba"/>\<newline>'' @
    ''        \<newline>'' @
    ''        <group string="Mediciones" col="4">\<newline>'' @
    ''            <field name="x_test_number"/>\<newline>'' @
    ''            <newline/>\<newline>'' @
    ''            <field name="x_initial_time"/>\<newline>'' @
    ''            <field name="x_initial_pressure"/>\<newline>'' @
    ''            <field name="x_final_time"/>\<newline>'' @
    ''            <field name="x_final_pressure"/>\<newline>'' @
    ''        </group>\<newline>'' @
    ''        \<newline>''\<close>

text \<open>The closing literal of \<^verbatim>\<open>generate_worksheet_xml_hermiticity\<close> (odoo_template_temp.py), source lines 41 to 61 of the literal.\<close>

definition hermiticity_xml_body_2 :: string where
  \<open>hermiticity_xml_body_2 =
    ''        <group string="Comentarios del ensayo">\<newline>'' @
    ''            <field name="x_test_comments" widget="text" nolabel="1"/>\<newline>'' @
    ''        </group>\<newline>'' @
    ''        \<newline>'' @
    ''        <separator string="Resultados"/>\<newline>'' @
    ''        \<newline>'' @
    ''        <group string="Resultado del test" col="2">\<newline>'' @
    ''            <field name="x_result_status" widget="radio"/>\<newline>'' @
    ''            <field name="x_result_comments" widget="text"/>\<newline>'' @
    ''        </group>\<newline>'' @
    ''        \<newline>'' @
    ''        <separator/>\<newline>'' @
    ''        \<newline>'' @
    ''        <group string="Realizado por" col="3">\<newline>'' @
    ''            <field name="x_performed_by"/>\<newline>'' @
    ''            <field name="x_department"/>\<newline>'' @
    ''            <field name="x_test_date"/>\<newline>'' @
    ''        </group>\<newline>'' @
    ''        \<newline>'' @
    ''    </sheet>\<newline>'' @
    ''</form>''\<close>

definition hermiticity_xml_body :: string where
  \<open>hermiticity_xml_body = hermiticity_xml_body_1 @ hermiticity_xml_body_2\<close>

text \<open>The literal that follows the template name in \<^verbatim>\<open>generate_worksheet_xml_temperatura\<close> (odoo_template_temp.py), source lines 1 to 40 of the literal.\<close>

definition temperatura_xml_body_1 :: string where
  \<open>temperatura_xml_body_1 =
    ''">\<newline>'' @
    ''    <sheet>\<newline>'' @
    ''        <div class="oe_title">\<newline>'' @
    ''            <h1>Test de temperatura de rodamientos</h1>\<newline>'' @
    ''        </div>\<newline>'' @
    ''        \<newline>'' @
    ''        <group string="Informaci'' @ [CHR 0xC3, CHR 0xB3] @ ''n del Equipo" col="2">\<newline>'' @
    ''            <field name="x_client"/>\<newline>'' @
    ''            <field name="x_equipment_model"/>\<newline>'' @
    ''            <field name="x_serial_number"/>\<newline>'' @
    ''            <field name="x_assistance_code"/>\<newline>'' @
    ''        </group>\<newline>'' @
    ''        \<newline>'' @
    ''        <separator string="1. Test de temperatura de rodamientos"/>\<newline>'' @
    ''        \<newline>'' @
    ''        <group string="1.1. Objetivo">\<newline>'' @
    ''            <field name="x_test_objective" widget="text" readonly="1"/>\<newline>'' @
    ''        </group>\<newline>'' @
    ''        \<newline>'' @
    ''        <group string="1.2. Procedimiento">\<newline>'' @
    ''            <field name="x_test_procedure" widget="text" readonly="1"/>\<newline>'' @
    ''        </group>\<newline>'' @
    ''        \<newline>'' @
    ''        <group string="1.3. M'' @ [CHR 0xC3, CHR 0xA9] @ ''todo">\<newline>'' @
    ''            <field name="x_test_method" widget="text" readonly="1"/>\<newline>'' @
    ''        </group>\<newline>'' @
    ''        \<newline>'' @
    ''        <group string="1.4. Criterio de aceptaci'' @ [CHR 0xC3, CHR 0xB3] @ ''n">\<newline>'' @
    ''            <field name="x_acceptance_criteria" widget="text" readonly="1"/>\<newline>'' @
    ''        </group>\<newline>'' @
    ''        \<newline>'' @
    ''        <separator string="1.5. Datos de la prueba"/>\<newline>'' @
    ''        \<newline>'' @
    ''        <group string="Mediciones" col="4">\<newline>'' @
    ''            <field name="x_measurement_time" string="Hora"/>\<newline>'' @
    ''            <field name="x_max_speed" string="Velocidad MAX (rpm)"/>\<newline>'' @
    ''            <newline/>\<newline>'' @
    ''            <field name="x_temp_upper_bearing" string="Temperatura rodamiento superior ('' @ [CHR 0xC2, CHR 0xB0] @ ''C)"/>\<newline>'' @
    ''            <field name="x_temp_lower_bearing" string="Temperatura rodamiento inferior ('' @ [CHR 0xC2, CHR 0xB0] @ ''C)"/>\<newline>'' @
    ''        </group>\<newline>''\<close>

text \<open>The literal that follows the template name in \<^verbatim>\<open>generate_worksheet_xml_temperatura\<close> (odoo_template_temp.py), source lines 41 to 61 of the literal.\<close>

definition temperatura_xml_body_2 :: string where
  \<open>temperatura_xml_body_2 =
    ''        \<newline>'' @
    ''        <group string="Comentarios">\<newline>'' @
    ''            <field name="x_test_comments" widget="text" nolabel="1"/>\<newline>'' @
    ''        </group>\<newline>'' @
    ''        \<newline>'' @
    ''        <separator string="Resultados"/>\<newline>'' @
    ''        \<newline>'' @
    ''        <group string="Resultado del test">\<newline>'' @
    ''            <field name="x_result_status" widget="radio"/>\<newline>'' @
    ''        </group>\<newline>'' @
    ''        \<newline>'' @
    ''        <separator/>\<newline>'' @
    ''        \<newline>'' @
    ''        <group string="Realizado por" col="3">\<newline>'' @
    ''            <field name="x_performed_by"/>\<newline>'' @
    ''            <field name="x_department"/>\<newline>'' @
    ''            <field name="x_test_date"/>\<newline>'' @
    ''        </group>\<newline>'' @
    ''        \<newline>'' @
    ''    </sheet>\<newline>'' @
    ''</form>''\<close>

definition temperatura_xml_body :: string where
  \<open>temperatura_xml_body = temperatura_xml_body_1 @ temperatura_xml_body_2\<close>

text \<open>The closing literal of \<^verbatim>\<open>generate_worksheet_xml\<close> in odoolong1.py, source lines 1 to 40 of the literal.\<close>

definition centrifuge_xml_body_1 :: string where
  \<open>centrifuge_xml_body_1 =
    ''</h1>\<newline>'' @
    ''            <h3>Electrical &amp; Mechanical Inspection</h3>\<newline>'' @
    ''        </div>\<newline>'' @
    ''        \<newline>'' @
    ''        <group string="Equipment Information" col="4">\<newline>'' @
    ''            <field name="x_assistance_code"/>\<newline>'' @
    ''            <field name="x_customer"/>\<newline>'' @
    ''            <field name="x_model"/>\<newline>'' @
    ''            <field name="x_project"/>\<newline>'' @
    ''            <field name="x_serial_number" colspan="1"/>\<newline>'' @
    ''        </group>\<newline>'' @
    ''        \<newline>'' @
    ''        <separator string="Inspection Details"/>\<newline>'' @
    ''        \<newline>'' @
    ''        <group string="Performed by" col="3">\<newline>'' @
    ''            <field name="x_performed_by"/>\<newline>'' @
    ''            <field name="x_position_dept"/>\<newline>'' @
    ''            <field name="x_inspection_date"/>\<newline>'' @
    ''        </group>\<newline>'' @
    ''        \<newline>'' @
    ''        <group string="Received by Customer" col="3">\<newline>'' @
    ''            <field name="x_received_by"/>\<newline>'' @
    ''            <field name="x_received_position"/>\<newline>'' @
    ''            <field name="x_received_date"/>\<newline>'' @
    ''        </group>\<newline>'' @
    ''        \<newline>'' @
    ''        <separator string="1. Revision Centrifuge"/>\<newline>'' @
    ''        \<newline>'' @
    ''        <group string="1.1. Objective">\<newline>'' @
    ''            <field name="x_objective" widget="text" readonly="1"/>\<newline>'' @
    ''        </group>\<newline>'' @
    ''        \<newline>'' @
    ''        <group string="1.2. Procedure">\<newline>'' @
    ''            <field name="x_procedure" widget="text" readonly="1"/>\<newline>'' @
    ''        </group>\<newline>'' @
    ''        \<newline>'' @
    ''        <group string="1.3. Standard">\<newline>'' @
    ''            <field name="x_standard" widget="text" readonly="1"/>\<newline>'' @
    ''        </group>\<newline>'' @
    ''        \<newline>''\<close>

text \<open>The closing literal of \<^verbatim>\<open>generate_worksheet_xml\<close> in odoolong1.py, source lines 41 to 80 of the literal.\<close>

definition centrifuge_xml_body_2 :: string where
  \<open>centrifuge_xml_body_2 =
    ''        <separator string="1.4. Inspection Points / Maintenance"/>\<newline>'' @
    ''        \<newline>'' @
    ''        <group string="Confirmation of Previous Status with Client" col="2">\<newline>'' @
    ''            <field name="x_prev_no_defects" widget="radio"/>\<newline>'' @
    ''            <field name="x_prev_regular_use" widget="radio"/>\<newline>'' @
    ''            <field name="x_prev_minor_defects" widget="radio"/>\<newline>'' @
    ''            <field name="x_prev_customer_comments" widget="text" colspan="2"/>\<newline>'' @
    ''        </group>\<newline>'' @
    ''        \<newline>'' @
    ''        <separator string="Previous Verifications"/>\<newline>'' @
    ''        \<newline>'' @
    ''        <group string="Basic Checks" col="2">\<newline>'' @
    ''            <field name="x_verify_id_plate" widget="radio"/>\<newline>'' @
    ''            <field name="x_verify_emergency_stop" widget="radio"/>\<newline>'' @
    ''            <field name="x_verify_hmi" widget="radio"/>\<newline>'' @
    ''            <field name="x_verify_collector" widget="radio"/>\<newline>'' @
    ''            <field name="x_verify_rotation" widget="radio"/>\<newline>'' @
    ''            <field name="x_verify_vibration" widget="radio"/>\<newline>'' @
    ''            <field name="x_verify_comments" widget="text" colspan="2"/>\<newline>'' @
    ''        </group>\<newline>'' @
    ''        \<newline>'' @
    ''        <separator string="Inertial Baseplate"/>\<newline>'' @
    ''        \<newline>'' @
    ''        <group string="Baseplate Inspection" col="2">\<newline>'' @
    ''            <field name="x_baseplate_corrosion" widget="radio"/>\<newline>'' @
    ''            <field name="x_baseplate_remains" widget="radio"/>\<newline>'' @
    ''            <field name="x_support_structure" widget="radio"/>\<newline>'' @
    ''            <field name="x_motor_support" widget="radio"/>\<newline>'' @
    ''            <field name="x_connection_boxes" widget="radio"/>\<newline>'' @
    ''            <field name="x_cover_condition" widget="radio"/>\<newline>'' @
    ''            <field name="x_cable_protection" widget="radio"/>\<newline>'' @
    ''            <field name="x_vibration_sensor" widget="radio"/>\<newline>'' @
    ''            <field name="x_baseplate_comments" widget="text" colspan="2"/>\<newline>'' @
    ''        </group>\<newline>'' @
    ''        \<newline>'' @
    ''        <separator string="Suspension System"/>\<newline>'' @
    ''        \<newline>'' @
    ''        <group col="2">\<newline>'' @
    ''            <field name="x_suspension_maintenance"/>\<newline>'' @
    ''            <newline/>\<newline>''\<close>

text \<open>The closing literal of \<^verbatim>\<open>generate_worksheet_xml\<close> in odoolong1.py, source lines 81 to 120 of the literal.\<close>

definition centrifuge_xml_body_3 :: string where
  \<open>centrifuge_xml_body_3 =
    ''            <field name="x_dampers_condition" widget="radio"/>\<newline>'' @
    ''            <field name="x_tripendular_condition" widget="radio"/>\<newline>'' @
    ''            <field name="x_visco_dampers" widget="radio"/>\<newline>'' @
    ''            <field name="x_suspension_comments" widget="text" colspan="2"/>\<newline>'' @
    ''        </group>\<newline>'' @
    ''        \<newline>'' @
    ''        <separator string="Casing"/>\<newline>'' @
    ''        \<newline>'' @
    ''        <group col="2">\<newline>'' @
    ''            <field name="x_casing_maintenance"/>\<newline>'' @
    ''            <newline/>\<newline>'' @
    ''            <field name="x_temp_probe" widget="radio"/>\<newline>'' @
    ''            <field name="x_sensor_interlock" widget="radio"/>\<newline>'' @
    ''            <field name="x_pneumatic_system" widget="radio"/>\<newline>'' @
    ''            <field name="x_casing_gasket" widget="radio"/>\<newline>'' @
    ''            <field name="x_casing_closure" widget="radio"/>\<newline>'' @
    ''            <field name="x_casing_comments" widget="text" colspan="2"/>\<newline>'' @
    ''        </group>\<newline>'' @
    ''        \<newline>'' @
    ''        <separator string="Lid"/>\<newline>'' @
    ''        \<newline>'' @
    ''        <group col="2">\<newline>'' @
    ''            <field name="x_lid_maintenance"/>\<newline>'' @
    ''            <newline/>\<newline>'' @
    ''            <field name="x_sight_glasses" widget="radio"/>\<newline>'' @
    ''            <field name="x_hinges" widget="radio"/>\<newline>'' @
    ''            <field name="x_opening_cylinder" widget="radio"/>\<newline>'' @
    ''            <field name="x_lid_comments" widget="text" colspan="2"/>\<newline>'' @
    ''        </group>\<newline>'' @
    ''        \<newline>'' @
    ''        <separator string="Feeding Detector"/>\<newline>'' @
    ''        \<newline>'' @
    ''        <group col="2">\<newline>'' @
    ''            <field name="x_feeding_detector_maintenance"/>\<newline>'' @
    ''            <newline/>\<newline>'' @
    ''            <field name="x_feeding_corrosion" widget="radio"/>\<newline>'' @
    ''            <field name="x_feeding_instrumentation" widget="radio"/>\<newline>'' @
    ''            <field name="x_feeding_comments" widget="text" colspan="2"/>\<newline>'' @
    ''        </group>\<newline>'' @
    ''        \<newline>''\<close>

text \<open>The closing literal of \<^verbatim>\<open>generate_worksheet_xml\<close> in odoolong1.py, source lines 121 to 160 of the literal.\<close>

definition centrifuge_xml_body_4 :: string where
  \<open>centrifuge_xml_body_4 =
    ''        <separator string="Piping and Connections"/>\<newline>'' @
    ''        \<newline>'' @
    ''        <group col="2">\<newline>'' @
    ''            <field name="x_feeding_pipe" widget="radio"/>\<newline>'' @
    ''            <field name="x_washing_pipe" widget="radio"/>\<newline>'' @
    ''            <field name="x_outlet_liquid" widget="radio"/>\<newline>'' @
    ''            <field name="x_cip_system" widget="radio"/>\<newline>'' @
    ''            <field name="x_solid_discharge_pipe" widget="radio"/>\<newline>'' @
    ''            <field name="x_piping_comments" widget="text" colspan="2"/>\<newline>'' @
    ''        </group>\<newline>'' @
    ''        \<newline>'' @
    ''        <separator string="Scrapper"/>\<newline>'' @
    ''        \<newline>'' @
    ''        <group col="2">\<newline>'' @
    ''            <field name="x_scrapper_maintenance"/>\<newline>'' @
    ''            <newline/>\<newline>'' @
    ''            <field name="x_scrapper_hydraulic" widget="radio"/>\<newline>'' @
    ''            <field name="x_hydraulic_circuit" widget="radio"/>\<newline>'' @
    ''            <field name="x_blade_condition" widget="radio"/>\<newline>'' @
    ''            <field name="x_blade_blowing" widget="radio"/>\<newline>'' @
    ''            <field name="x_scrapper_comments" widget="text" colspan="2"/>\<newline>'' @
    ''        </group>\<newline>'' @
    ''        \<newline>'' @
    ''        <separator string="Antagonic Blowing"/>\<newline>'' @
    ''        \<newline>'' @
    ''        <group col="2">\<newline>'' @
    ''            <field name="x_antagonic_maintenance"/>\<newline>'' @
    ''            <newline/>\<newline>'' @
    ''            <field name="x_antagonic_clearances" widget="radio"/>\<newline>'' @
    ''            <field name="x_antagonic_comments" widget="text" colspan="2"/>\<newline>'' @
    ''        </group>\<newline>'' @
    ''        \<newline>'' @
    ''        <separator string="Drive"/>\<newline>'' @
    ''        \<newline>'' @
    ''        <group col="2">\<newline>'' @
    ''            <field name="x_drive_maintenance"/>\<newline>'' @
    ''            <newline/>\<newline>'' @
    ''            <field name="x_belt_condition" widget="radio"/>\<newline>'' @
    ''            <field name="x_main_motor" widget="radio"/>\<newline>'' @
    ''            <field name="x_pulley_condition" widget="radio"/>\<newline>''\<close>

text \<open>The closing literal of \<^verbatim>\<open>generate_worksheet_xml\<close> in odoolong1.py, source lines 161 to 200 of the literal.\<close>

definition centrifuge_xml_body_5 :: string where
  \<open>centrifuge_xml_body_5 =
    ''            <field name="x_static_discharge" widget="radio"/>\<newline>'' @
    ''            <field name="x_tachometric" widget="radio"/>\<newline>'' @
    ''            <field name="x_drive_comments" widget="text" colspan="2"/>\<newline>'' @
    ''        </group>\<newline>'' @
    ''        \<newline>'' @
    ''        <separator string="Basket"/>\<newline>'' @
    ''        \<newline>'' @
    ''        <group col="2">\<newline>'' @
    ''            <field name="x_basket_bottom" widget="radio"/>\<newline>'' @
    ''            <field name="x_basket_boarding" widget="radio"/>\<newline>'' @
    ''            <field name="x_basket_ferrule" widget="radio"/>\<newline>'' @
    ''            <field name="x_basket_comments" widget="text" colspan="2"/>\<newline>'' @
    ''        </group>\<newline>'' @
    ''        \<newline>'' @
    ''        <separator string="Bearing Box"/>\<newline>'' @
    ''        \<newline>'' @
    ''        <group col="2">\<newline>'' @
    ''            <field name="x_bearing_maintenance"/>\<newline>'' @
    ''            <newline/>\<newline>'' @
    ''            <field name="x_greasing_system" widget="radio"/>\<newline>'' @
    ''            <field name="x_oil_system" widget="radio"/>\<newline>'' @
    ''            <field name="x_bearing_temp_probe" widget="radio"/>\<newline>'' @
    ''            <field name="x_inerting" widget="radio"/>\<newline>'' @
    ''            <field name="x_bearing_comments" widget="text" colspan="2"/>\<newline>'' @
    ''        </group>\<newline>'' @
    ''        \<newline>'' @
    ''        <separator string="Hoses"/>\<newline>'' @
    ''        \<newline>'' @
    ''        <group col="2">\<newline>'' @
    ''            <field name="x_hoses_maintenance"/>\<newline>'' @
    ''            <newline/>\<newline>'' @
    ''            <field name="x_liquid_outlet_hose" widget="radio"/>\<newline>'' @
    ''            <field name="x_hoses_comments" widget="text" colspan="2"/>\<newline>'' @
    ''        </group>\<newline>'' @
    ''        \<newline>'' @
    ''        <separator string="Filtercloth"/>\<newline>'' @
    ''        \<newline>'' @
    ''        <group col="2">\<newline>'' @
    ''            <field name="x_filtercloth_fixing_ring" widget="radio"/>\<newline>'' @
    ''            <field name="x_filtercloth_clip" widget="radio"/>\<newline>''\<close>

text \<open>The closing literal of \<^verbatim>\<open>generate_worksheet_xml\<close> in odoolong1.py, source lines 201 to 240 of the literal.\<close>

definition centrifuge_xml_body_6 :: string where
  \<open>centrifuge_xml_body_6 =
    ''            <field name="x_filtercloth_gasket" widget="radio"/>\<newline>'' @
    ''            <field name="x_filtercloth_comments" widget="text" colspan="2"/>\<newline>'' @
    ''        </group>\<newline>'' @
    ''        \<newline>'' @
    ''        <separator string="Solid Discharge"/>\<newline>'' @
    ''        \<newline>'' @
    ''        <group col="2">\<newline>'' @
    ''            <field name="x_butterfly_valve" widget="radio"/>\<newline>'' @
    ''            <field name="x_screw_conveyor" widget="radio"/>\<newline>'' @
    ''            <field name="x_solid_discharge_comments" widget="text" colspan="2"/>\<newline>'' @
    ''        </group>\<newline>'' @
    ''        \<newline>'' @
    ''        <separator string="Inertization"/>\<newline>'' @
    ''        \<newline>'' @
    ''        <group col="2">\<newline>'' @
    ''            <field name="x_inertization_maintenance"/>\<newline>'' @
    ''            <newline/>\<newline>'' @
    ''            <field name="x_blanketing_panel" widget="radio"/>\<newline>'' @
    ''            <field name="x_oxygen_analyzer" widget="radio"/>\<newline>'' @
    ''            <field name="x_siphonic_tank" widget="radio"/>\<newline>'' @
    ''            <field name="x_inertization_comments" widget="text" colspan="2"/>\<newline>'' @
    ''        </group>\<newline>'' @
    ''        \<newline>'' @
    ''        <separator string="Hydraulic Unit"/>\<newline>'' @
    ''        \<newline>'' @
    ''        <group col="2">\<newline>'' @
    ''            <field name="x_hydraulic_unit_maintenance"/>\<newline>'' @
    ''            <newline/>\<newline>'' @
    ''            <field name="x_hydraulic_actuators" widget="radio"/>\<newline>'' @
    ''            <field name="x_hydraulic_comments" widget="text" colspan="2"/>\<newline>'' @
    ''        </group>\<newline>'' @
    ''        \<newline>'' @
    ''        <separator string="Lubrication Unit"/>\<newline>'' @
    ''        \<newline>'' @
    ''        <group col="2">\<newline>'' @
    ''            <field name="x_lubrication_maintenance"/>\<newline>'' @
    ''            <newline/>\<newline>'' @
    ''            <field name="x_lubrication_actuators" widget="radio"/>\<newline>'' @
    ''            <field name="x_lubrication_comments" widget="text" colspan="2"/>\<newline>'' @
    ''        </group>\<newline>''\<close>

text \<open>The closing literal of \<^verbatim>\<open>generate_worksheet_xml\<close> in odoolong1.py, source lines 241 to 280 of the literal.\<close>

definition centrifuge_xml_body_7 :: string where
  \<open>centrifuge_xml_body_7 =
    ''        \<newline>'' @
    ''        <separator string="Electrical Cabinets"/>\<newline>'' @
    ''        \<newline>'' @
    ''        <group col="2">\<newline>'' @
    ''            <field name="x_power_cabinet" widget="radio"/>\<newline>'' @
    ''            <field name="x_control_cabinet" widget="radio"/>\<newline>'' @
    ''            <field name="x_operator_panel_cabinet" widget="radio"/>\<newline>'' @
    ''            <field name="x_brake_resistors" widget="radio"/>\<newline>'' @
    ''            <field name="x_electrical_comments" widget="text" colspan="2"/>\<newline>'' @
    ''        </group>\<newline>'' @
    ''        \<newline>'' @
    ''        <separator string="Tests"/>\<newline>'' @
    ''        \<newline>'' @
    ''        <group col="2">\<newline>'' @
    ''            <field name="x_temperature_test" widget="radio"/>\<newline>'' @
    ''            <field name="x_vibrations_test" widget="radio"/>\<newline>'' @
    ''            <field name="x_leak_test" widget="radio"/>\<newline>'' @
    ''            <field name="x_tests_comments" widget="text" colspan="2"/>\<newline>'' @
    ''        </group>\<newline>'' @
    ''        \<newline>'' @
    ''        <separator string="Others Before Not Mentioned"/>\<newline>'' @
    ''        \<newline>'' @
    ''        <group>\<newline>'' @
    ''            <field name="x_others_not_mentioned" widget="text" nolabel="1"/>\<newline>'' @
    ''        </group>\<newline>'' @
    ''        \<newline>'' @
    ''        <separator string="1.5. Notes, Comments and Final Conclusions"/>\<newline>'' @
    ''        \<newline>'' @
    ''        <group>\<newline>'' @
    ''            <field name="x_final_notes" widget="text" nolabel="1"/>\<newline>'' @
    ''        </group>\<newline>'' @
    ''        \<newline>'' @
    ''        <separator/>\<newline>'' @
    ''        \<newline>'' @
    ''        <group string="Overall Inspection Result">\<newline>'' @
    ''            <field name="x_overall_result" widget="radio"/>\<newline>'' @
    ''        </group>\<newline>'' @
    ''        \<newline>'' @
    ''    </sheet>\<newline>'' @
    ''</form>''\<close>

definition centrifuge_xml_body :: string where
  \<open>centrifuge_xml_body = centrifuge_xml_body_1 @ centrifuge_xml_body_2 @ centrifuge_xml_body_3 @ centrifuge_xml_body_4 @ centrifuge_xml_body_5 @ centrifuge_xml_body_6 @ centrifuge_xml_body_7\<close>

section \<open>Layout generators\<close>

text \<open>
  The three scripts hold the same class with different layout generators and a different
  treatment of default values in \<^verbatim>\<open>create_field\<close>; the script is a parameter of the
  operations they share.
\<close>

datatype script = Odd_temp_veb | Odoo_template_temp | Odoolong1

text \<open>
  odd_temp_veb.py, \<^verbatim>\<open>generate_worksheet_xml_vibracion\<close>. Its loop over the declared fields
  collects four default values: the first branch of the \<^verbatim>\<open>if/elif\<close> chain whose name test and
  \<^verbatim>\<open>'default_value' in field\<close> both hold assigns. The values are not used afterwards, but
  \<^verbatim>\<open>field['name']\<close> can raise. Once it has not, the field is a dict and the membership
  test cannot raise either, so the step evaluates it once, ahead of the chain.
\<close>

definition vibracion_default_step ::
  "pyval \<Rightarrow> pyval \<times> pyval \<times> pyval \<times> pyval \<Rightarrow> exn + (pyval \<times> pyval \<times> pyval \<times> pyval)" where
  "vibracion_default_step field ds =
     (case ds of (d_objective, d_procedure, d_method, d_criteria) \<Rightarrow>
      ebind (subscript ''name'' field) (\<lambda>n.
      ebind (py_in ''default_value'' field) (\<lambda>has.
      if n = PStr ''x_test_objective'' \<and> has
        then ebind (subscript ''default_value'' field) (\<lambda>v. Inr (v, d_procedure, d_method, d_criteria))
      else if n = PStr ''x_test_procedure'' \<and> has
        then ebind (subscript ''default_value'' field) (\<lambda>v. Inr (d_objective, v, d_method, d_criteria))
      else if n = PStr ''x_test_method'' \<and> has
        then ebind (subscript ''default_value'' field) (\<lambda>v. Inr (d_objective, d_procedure, v, d_criteria))
      else if n = PStr ''x_acceptance_criteria'' \<and> has
        then ebind (subscript ''default_value'' field) (\<lambda>v. Inr (d_objective, d_procedure, d_method, v))
      else Inr ds)))"

fun vibracion_defaults ::
  "pyval list \<Rightarrow> pyval \<times> pyval \<times> pyval \<times> pyval \<Rightarrow> exn + (pyval \<times> pyval \<times> pyval \<times> pyval)" where
  "vibracion_defaults [] ds = Inr ds"
| "vibracion_defaults (field # rest) ds =
     ebind (vibracion_default_step field ds) (vibracion_defaults rest)"

definition generate_worksheet_xml_vibracion :: "pyval \<Rightarrow> exn + string" where
  "generate_worksheet_xml_vibracion template_config =
     ebind (subscript ''template_name'' template_config) (\<lambda>template_name.
     ebind (subscript ''fields'' template_config) (\<lambda>fields.
     ebind (py_iter fields) (\<lambda>items.
     ebind (vibracion_defaults items (PStr [], PStr [], PStr [], PStr [])) (\<lambda>defaults.
     ebind (str_of_operand template_name) (\<lambda>name.
     Inr (form_open @ name @ vibracion_xml_body))))))"

text \<open>odoo_template_temp.py, \<^verbatim>\<open>generate_worksheet_xml_hermiticity\<close>.\<close>

definition generate_worksheet_xml_hermiticity :: "pyval \<Rightarrow> exn + string" where
  "generate_worksheet_xml_hermiticity template_config =
     ebind (subscript ''template_name'' template_config) (\<lambda>template_name.
     ebind (str_of_operand template_name) (\<lambda>name.
     Inr (form_open @ name @ title_open @ name @ hermiticity_xml_body)))"

text \<open>odoo_template_temp.py, \<^verbatim>\<open>generate_worksheet_xml_temperatura\<close>.\<close>

definition generate_worksheet_xml_temperatura :: "pyval \<Rightarrow> exn + string" where
  "generate_worksheet_xml_temperatura template_config =
     ebind (subscript ''template_name'' template_config) (\<lambda>template_name.
     ebind (str_of_operand template_name) (\<lambda>name.
     Inr (form_open @ name @ temperatura_xml_body)))"

text \<open>odoo_template_temp.py, \<^verbatim>\<open>generate_worksheet_xml\<close>: the dispatch on the template code.\<close>

definition generate_worksheet_xml :: "pyval \<Rightarrow> exn + string" where
  "generate_worksheet_xml template_config =
     ebind (get_method ''template_code'' (PStr []) template_config) (\<lambda>template_code.
     ebind (py_lower template_code) (\<lambda>lowered.
     if substring ''temperatura'' lowered
     then generate_worksheet_xml_temperatura template_config
     else generate_worksheet_xml_hermiticity template_config))"

text \<open>odoolong1.py, \<^verbatim>\<open>generate_worksheet_xml\<close>: the centrifuge revision layout.\<close>

definition generate_worksheet_xml_centrifuge :: "pyval \<Rightarrow> exn + string" where
  "generate_worksheet_xml_centrifuge template_config =
     ebind (subscript ''template_name'' template_config) (\<lambda>template_name.
     ebind (str_of_operand template_name) (\<lambda>name.
     Inr (form_open @ name @ title_open @ name @ centrifuge_xml_body)))"

text \<open>The generator \<^verbatim>\<open>create_worksheet_view\<close> calls in each script.\<close>

fun view_xml_of :: "script \<Rightarrow> pyval \<Rightarrow> exn + string" where
  "view_xml_of Odd_temp_veb = generate_worksheet_xml_vibracion"
| "view_xml_of Odoo_template_temp = generate_worksheet_xml"
| "view_xml_of Odoolong1 = generate_worksheet_xml_centrifuge"

section \<open>The operations of \<^verbatim>\<open>WorksheetTemplateDesigner\<close>\<close>

subsection \<open>\<^verbatim>\<open>find_worksheet_template_by_name\<close>\<close>

definition template_search :: "pyval \<Rightarrow> rpc" where
  "template_search template_name =
     Rpc ''worksheet.template'' ''search''
       [PList [PList [PStr ''name'', PStr ''='', template_name]]]"

definition template_read :: "pyval \<Rightarrow> rpc" where
  "template_read template_id =
     Rpc ''worksheet.template'' ''read''
       [PList [template_id], PList [PStr ''name'', PStr ''model_id'']]"

definition model_read :: "pyval \<Rightarrow> rpc" where
  "model_read model_id =
     Rpc ''ir.model'' ''read'' [PList [model_id], PList [PStr ''model'', PStr ''name'']]"

text \<open>The body of the \<^verbatim>\<open>try\<close> block.\<close>

definition find_body :: "'r host \<Rightarrow> pyval \<Rightarrow> ('r, pyval \<times> pyval) prog" where
  "find_body h template_name =
     bind (execute h (template_search template_name)) (\<lambda>template_ids.
     if \<not> truthy template_ids then ret (PNone, PNone) else
     bind (lift (index0 template_ids)) (\<lambda>template_id.
     bind (execute h (template_read template_id)) (\<lambda>template_data.
     if \<not> truthy template_data then ret (PNone, PNone) else
     bind (lift (ebind (index0 template_data) (get_method ''model_id'' PNone))) (\<lambda>link.
     if \<not> truthy link then ret (PNone, PNone) else
     bind (lift (ebind (ebind (index0 template_data) (subscript ''model_id'')) index0)) (\<lambda>model_id.
     bind (execute h (model_read model_id)) (\<lambda>model_data.
     if \<not> truthy model_data then ret (PNone, PNone) else
     bind (lift (ebind (index0 model_data) (subscript ''model''))) (\<lambda>worksheet_model.
     ret (template_id, worksheet_model))))))))"

definition find_worksheet_template_by_name :: "'r host \<Rightarrow> pyval \<Rightarrow> ('r, pyval \<times> pyval) prog" where
  "find_worksheet_template_by_name h template_name =
     try_except (find_body h template_name) (PNone, PNone)"

subsection \<open>\<^verbatim>\<open>check_field_exists\<close>\<close>

definition field_search :: "pyval \<Rightarrow> pyval \<Rightarrow> rpc" where
  "field_search model field_name =
     Rpc ''ir.model.fields'' ''search''
       [PList [PList [PStr ''model'', PStr ''='', model],
               PList [PStr ''name'', PStr ''='', field_name]]]"

definition check_field_exists :: "'r host \<Rightarrow> pyval \<Rightarrow> pyval \<Rightarrow> ('r, bool) prog" where
  "check_field_exists h model field_name =
     try_except
       (bind (execute h (field_search model field_name)) (\<lambda>field_ids.
        bind (lift (pylen field_ids)) (\<lambda>n.
        ret (n > 0))))
       False"

subsection \<open>\<^verbatim>\<open>create_field\<close> and \<^verbatim>\<open>set_field_default\<close>\<close>

text \<open>
  \<^verbatim>\<open>field_type_map.get(tag, 'char')\<close>. The keys of the table are the eight strings below.
  A list or a dict is not hashable, and the lookup raises a TypeError on it.
\<close>

definition field_type_vocabulary :: "string list" where
  "field_type_vocabulary =
     [''char'', ''text'', ''integer'', ''float'', ''date'', ''datetime'', ''boolean'', ''selection'']"

fun field_type_map_get :: "pyval \<Rightarrow> exn + string" where
  "field_type_map_get (PStr s) = Inr (if s \<in> set field_type_vocabulary then s else ''char'')"
| "field_type_map_get (PList xs) = Inl TypeError"
| "field_type_map_get (PDict kvs) = Inl TypeError"
| "field_type_map_get v = Inr ''char''"

definition model_search :: "pyval \<Rightarrow> rpc" where
  "model_search model =
     Rpc ''ir.model'' ''search'' [PList [PList [PStr ''model'', PStr ''='', model]]]"

definition field_create :: "(string \<times> pyval) list \<Rightarrow> rpc" where
  "field_create field_values = Rpc ''ir.model.fields'' ''create'' [PDict field_values]"

definition default_set :: "pyval \<Rightarrow> pyval \<Rightarrow> pyval \<Rightarrow> rpc" where
  "default_set model field_name default_value =
     Rpc ''ir.default'' ''set'' [model, field_name, default_value]"

text \<open>odd_temp_veb.py only.\<close>

definition set_field_default :: "'r host \<Rightarrow> pyval \<Rightarrow> pyval \<Rightarrow> pyval \<Rightarrow> ('r, bool) prog" where
  "set_field_default h model field_name default_value =
     try_except
       (bind (execute h (default_set model field_name default_value)) (\<lambda>r. ret True))
       False"

text \<open>
  \<^verbatim>\<open>'default_value' in field_config and field_config['default_value']\<close>, as a condition:
  the default value when the key is present and its value is true.
\<close>

definition given_default :: "pyval \<Rightarrow> exn + pyval option" where
  "given_default field_config =
     ebind (py_in ''default_value'' field_config) (\<lambda>has.
     if has
     then ebind (subscript ''default_value'' field_config) (\<lambda>v.
          Inr (if truthy v then Some v else None))
     else Inr None)"

text \<open>
  The dict \<^verbatim>\<open>field_values\<close> as it stands when the creation call is issued.
  odoo_template_temp.py adds the key \<^verbatim>\<open>default\<close>; the other two scripts do not.
  The declaration is a dict by the time the type tag has been read, so the membership
  test for \<^verbatim>\<open>selection\<close> cannot raise and is evaluated ahead of the conjunction.
\<close>

definition field_values_of ::
  "script \<Rightarrow> 'r host \<Rightarrow> pyval \<Rightarrow> pyval \<Rightarrow> pyval \<Rightarrow> exn + (string \<times> pyval) list" where
  "field_values_of s h field_config field_name model_id =
     ebind (ebind (subscript ''field_type'' field_config) field_type_map_get) (\<lambda>ttype.
     ebind (subscript ''label'' field_config) (\<lambda>label.
     ebind (get_method ''required'' (PBool False) field_config) (\<lambda>required.
     ebind (get_method ''readonly'' (PBool False) field_config) (\<lambda>readonly.
     ebind (if s = Odoo_template_temp then given_default field_config else Inr None) (\<lambda>dflt.
     ebind (py_in ''selection'' field_config) (\<lambda>has_selection.
     ebind (if ttype = ''selection'' \<and> has_selection
            then ebind (subscript ''selection'' field_config) (\<lambda>sel.
                 Inr [(''selection'', PStr (py_str h sel))])
            else Inr []) (\<lambda>selection.
     Inr ([(''name'', field_name),
           (''field_description'', label),
           (''model_id'', model_id),
           (''ttype'', PStr ttype),
           (''state'', PStr ''manual''),
           (''required'', required),
           (''readonly'', readonly)]
          @ (case dflt of None \<Rightarrow> [] | Some v \<Rightarrow> [(''default'', v)])
          @ selection))))))))"

text \<open>The body of the \<^verbatim>\<open>try\<close> block of \<^verbatim>\<open>create_field\<close>.\<close>

definition create_body :: "script \<Rightarrow> 'r host \<Rightarrow> pyval \<Rightarrow> pyval \<Rightarrow> pyval \<Rightarrow> ('r, bool) prog" where
  "create_body s h model field_config field_name =
     bind (execute h (model_search model)) (\<lambda>model_ids.
     if \<not> truthy model_ids then ret False else
     bind (lift (index0 model_ids)) (\<lambda>model_id.
     bind (lift (field_values_of s h field_config field_name model_id)) (\<lambda>field_values.
     bind (execute h (field_create field_values)) (\<lambda>field_id.
     if s = Odd_temp_veb
     then bind (lift (given_default field_config)) (\<lambda>dflt.
          case dflt of
            None \<Rightarrow> ret True
          | Some v \<Rightarrow> bind (set_field_default h model field_name v) (\<lambda>r. ret True))
     else ret True))))"

definition create_field :: "script \<Rightarrow> 'r host \<Rightarrow> pyval \<Rightarrow> pyval \<Rightarrow> ('r, bool) prog" where
  "create_field s h model field_config =
     bind (lift (subscript ''name'' field_config)) (\<lambda>field_name.
     bind (check_field_exists h model field_name) (\<lambda>exists.
     if exists then ret True
     else try_except (create_body s h model field_config field_name) False))"

subsection \<open>\<^verbatim>\<open>create_worksheet_view\<close>\<close>

text \<open>
  The name of the layout: \<^verbatim>\<open>f"view_{worksheet_model.replace('.', '_')}_form"\<close>. Only a
  \<^verbatim>\<open>str\<close> has the method \<^verbatim>\<open>replace\<close>; both characters are ASCII, so the replacement
  acts on single bytes.
\<close>

fun view_name :: "pyval \<Rightarrow> exn + string" where
  "view_name (PStr s) = Inr (''view_'' @ replace_dots s @ ''_form'')"
| "view_name v = Inl AttributeError"

definition view_search :: "string \<Rightarrow> pyval \<Rightarrow> rpc" where
  "view_search name worksheet_model =
     Rpc ''ir.ui.view'' ''search''
       [PList [PList [PStr ''name'', PStr ''='', PStr name],
               PList [PStr ''model'', PStr ''='', worksheet_model]]]"

definition view_write :: "pyval \<Rightarrow> string \<Rightarrow> rpc" where
  "view_write view_id view_xml =
     Rpc ''ir.ui.view'' ''write'' [PList [view_id], PDict [(''arch'', PStr view_xml)]]"

definition view_create :: "string \<Rightarrow> pyval \<Rightarrow> string \<Rightarrow> rpc" where
  "view_create name worksheet_model view_xml =
     Rpc ''ir.ui.view'' ''create''
       [PDict [(''name'', PStr name),
               (''model'', worksheet_model),
               (''type'', PStr ''form''),
               (''arch'', PStr view_xml),
               (''priority'', PInt 1)]]"

text \<open>The body of the \<^verbatim>\<open>try\<close> block.\<close>

definition view_body :: "script \<Rightarrow> 'r host \<Rightarrow> pyval \<Rightarrow> pyval \<Rightarrow> ('r, pyval) prog" where
  "view_body s h worksheet_model template_config =
     bind (lift (view_name worksheet_model)) (\<lambda>name.
     bind (lift (view_xml_of s template_config)) (\<lambda>view_xml.
     bind (execute h (view_search name worksheet_model)) (\<lambda>existing_views.
     if truthy existing_views
     then bind (lift (index0 existing_views)) (\<lambda>view_id.
          bind (execute h (view_write view_id view_xml)) (\<lambda>r.
          ret view_id))
     else execute h (view_create name worksheet_model view_xml))))"

definition create_worksheet_view :: "script \<Rightarrow> 'r host \<Rightarrow> pyval \<Rightarrow> pyval \<Rightarrow> ('r, pyval) prog" where
  "create_worksheet_view s h worksheet_model template_config =
     try_except (view_body s h worksheet_model template_config) PNone"

subsection \<open>\<^verbatim>\<open>design_template\<close>\<close>

text \<open>The dict \<^verbatim>\<open>results\<close> while the fields are processed, and with the two keys added at the end.\<close>

record results =
  template_name :: pyval
  template_id :: pyval
  worksheet_model :: pyval
  total_fields :: nat
  created :: nat
  failed :: nat
  failed_fields :: "pyval list"

record report = results +
  view_id :: pyval
  success :: bool

text \<open>
  The three dicts \<^verbatim>\<open>design_template\<close> can return: \<^verbatim>\<open>{'success': False, 'error': str(e)}\<close>,
  \<^verbatim>\<open>{'success': False}\<close> and the completed \<^verbatim>\<open>results\<close>.
\<close>

datatype run_result = LoadFailed string | NotFound | Completed report

text \<open>\<^verbatim>\<open>results.get('success')\<close>, as \<^verbatim>\<open>main\<close> reads it.\<close>

fun success_of :: "run_result \<Rightarrow> bool" where
  "success_of (LoadFailed msg) = False"
| "success_of NotFound = False"
| "success_of (Completed r) = success r"

text \<open>
  The loop of step 2. The \<^verbatim>\<open>print\<close> at the head of the body evaluates
  \<^verbatim>\<open>field_config['name']\<close> outside any \<^verbatim>\<open>try\<close>.
\<close>

fun add_fields ::
  "script \<Rightarrow> 'r host \<Rightarrow> pyval \<Rightarrow> pyval list \<Rightarrow> results \<Rightarrow> ('r, results) prog" where
  "add_fields s h model [] res = ret res"
| "add_fields s h model (field_config # rest) res =
     bind (lift (subscript ''name'' field_config)) (\<lambda>field_name.
     bind (create_field s h model field_config) (\<lambda>ok.
     add_fields s h model rest
       (if ok then res\<lparr>created := created res + 1\<rparr>
        else res\<lparr>failed := failed res + 1,
                 failed_fields := failed_fields res @ [field_name]\<rparr>)))"

text \<open>
  The summary joins the names of the failed fields when there are any; the join raises on
  a name that is not a string.
\<close>

definition summary :: "results \<Rightarrow> exn + unit" where
  "summary res =
     (if failed_fields res \<noteq> []
      then ebind (join_comma (failed_fields res)) (\<lambda>line. Inr ())
      else Inr ())"

text \<open>
  \<^verbatim>\<open>design_template\<close>. Its argument \<open>loaded\<close> is the outcome of opening the file and
  \<^verbatim>\<open>json.load\<close>: the message of the exception, or the document.
\<close>

definition design_template ::
  "script \<Rightarrow> 'r host \<Rightarrow> string + pyval \<Rightarrow> ('r, run_result) prog" where
  "design_template s h loaded =
     (case loaded of
        Inl msg \<Rightarrow> ret (LoadFailed msg)
      | Inr template \<Rightarrow>
          bind (lift (subscript ''template_name'' template)) (\<lambda>name.
          bind (lift (subscript ''fields'' template)) (\<lambda>fields.
          bind (lift (pylen fields)) (\<lambda>n.
          bind (find_worksheet_template_by_name h name) (\<lambda>found.
          if \<not> truthy (fst found) \<or> \<not> truthy (snd found) then ret NotFound else
          bind (lift (py_iter fields)) (\<lambda>items.
          bind (add_fields s h (snd found) items
                  \<lparr>template_name = name, template_id = fst found,
                   worksheet_model = snd found, total_fields = n,
                   created = 0, failed = 0, failed_fields = []\<rparr>) (\<lambda>res.
          bind (create_worksheet_view s h (snd found) template) (\<lambda>vid.
          bind (lift (summary res)) (\<lambda>u.
          ret (Completed (results.extend res
                 \<lparr>view_id = vid, success = (vid \<noteq> PNone)\<rparr>)))))))))))"


section \<open>Notions the properties are stated with\<close>

text \<open>The name of a field declaration, \<open>PNone\<close> standing in where it has none.\<close>

definition name_of :: "pyval \<Rightarrow> pyval" where
  "name_of field_config =
     (case subscript ''name'' field_config of Inl e \<Rightarrow> PNone | Inr n \<Rightarrow> n)"

text \<open>
  The outcome of each field of a list, in order: whether \<^verbatim>\<open>create_field\<close> returned
  \<^verbatim>\<open>True\<close>, each call starting in the world the one before left.
\<close>

fun field_outcomes :: "script \<Rightarrow> 'r host \<Rightarrow> pyval \<Rightarrow> pyval list \<Rightarrow> 'r world \<Rightarrow> bool list" where
  "field_outcomes s h model [] w = []"
| "field_outcomes s h model (field_config # rest) w =
     (fst (create_field s h model field_config w) = Inr True)
       # field_outcomes s h model rest (snd (create_field s h model field_config w))"

text \<open>The names of the fields whose outcome is a failure, in order.\<close>

fun failed_names :: "pyval list \<Rightarrow> bool list \<Rightarrow> pyval list" where
  "failed_names (field_config # rest) (ok # oks) =
     (if ok then failed_names rest oks else name_of field_config # failed_names rest oks)"
| "failed_names fs oks = []"

text \<open>The calls a world has seen beyond those of an earlier world.\<close>

definition new_calls :: "'r world \<Rightarrow> 'r world \<Rightarrow> rpc list" where
  "new_calls w w' = drop (length (trace w)) (trace w')"

text \<open>Kinds of calls, told apart by the remote model and method they address.\<close>

definition is_field_search :: "rpc \<Rightarrow> bool" where
  "is_field_search c = (rpc_model c = ''ir.model.fields'' \<and> rpc_method c = ''search'')"

definition is_field_create :: "rpc \<Rightarrow> bool" where
  "is_field_create c = (rpc_model c = ''ir.model.fields'' \<and> rpc_method c = ''create'')"

definition is_view_call :: "rpc \<Rightarrow> bool" where
  "is_view_call c = (rpc_model c = ''ir.ui.view'')"

definition is_resolution_call :: "rpc \<Rightarrow> bool" where
  "is_resolution_call c =
     (rpc_model c = ''worksheet.template'' \<and> (rpc_method c = ''search'' \<or> rpc_method c = ''read'')
      \<or> rpc_model c = ''ir.model'' \<and> rpc_method c = ''read'')"

text \<open>A type tag the table of \<^verbatim>\<open>create_field\<close> can be asked for: a value that can be hashed.\<close>

fun hashable :: "pyval \<Rightarrow> bool" where
  "hashable (PList xs) = False"
| "hashable (PDict kvs) = False"
| "hashable v = True"

text \<open>
  The remote answers the existence query for a field with a collection that is not empty:
  the condition under which \<^verbatim>\<open>check_field_exists\<close> returns \<^verbatim>\<open>True\<close>.
\<close>

definition field_found :: "'r host \<Rightarrow> pyval \<Rightarrow> pyval \<Rightarrow> 'r \<Rightarrow> bool" where
  "field_found h model field_name r =
     (case fst (execute_kw h r (field_search model field_name)) of
        None \<Rightarrow> False
      | Some ids \<Rightarrow> (case pylen ids of Inl e \<Rightarrow> False | Inr k \<Rightarrow> 0 < k))"

text \<open>The dict \<^verbatim>\<open>results\<close> as \<^verbatim>\<open>design_template\<close> initialises it.\<close>

definition initial_results :: "pyval \<Rightarrow> pyval \<times> pyval \<Rightarrow> nat \<Rightarrow> results" where
  "initial_results name found n =
     \<lparr>template_name = name, template_id = fst found, worksheet_model = snd found,
      total_fields = n, created = 0, failed = 0, failed_fields = []\<rparr>"

text \<open>
  A proof device: every call a program issues, from any world, satisfies \<open>P\<close>, and the
  calls already recorded stay as they are.
\<close>

definition issues :: "(rpc \<Rightarrow> bool) \<Rightarrow> ('r, 'a) prog \<Rightarrow> bool" where
  "issues P m = (\<forall>w. \<exists>cs. trace (snd (m w)) = trace w @ cs \<and> list_all P cs)"

section \<open>A small remote system for concrete runs\<close>

text \<open>
  A remote with one worksheet template, \<^verbatim>\<open>Vibration Test\<close> (identifier 1), bound to the model
  \<^verbatim>\<open>x_fsm_vibration\<close> (identifier 7). Its state is the names of the fields the model has and
  the names of its layouts. Creating a field faults when the field exists or when its name
  does not start with \<^verbatim>\<open>x_\<close>; a call it does not know faults.
\<close>

record sim =
  sim_fields :: "pyval list"
  sim_views :: "pyval list"

definition sim_model :: pyval where
  "sim_model = PStr ''x_fsm_vibration''"

definition custom_name :: "pyval \<Rightarrow> bool" where
  "custom_name n = (case n of PStr s \<Rightarrow> is_prefix ''x_'' s | _ \<Rightarrow> False)"

definition sim_field_create :: "sim \<Rightarrow> pyval list \<Rightarrow> pyval option \<times> sim" where
  "sim_field_create st args =
     (case args of
        [PDict vals] \<Rightarrow>
          (case map_of vals ''name'' of
             Some n \<Rightarrow>
               if n \<in> set (sim_fields st) \<or> \<not> custom_name n then (None, st)
               else (Some (PInt (100 + int (length (sim_fields st)))),
                     st\<lparr>sim_fields := sim_fields st @ [n]\<rparr>)
           | None \<Rightarrow> (None, st))
      | _ \<Rightarrow> (None, st))"

definition sim_view_create :: "sim \<Rightarrow> pyval list \<Rightarrow> pyval option \<times> sim" where
  "sim_view_create st args =
     (case args of
        [PDict vals] \<Rightarrow>
          (case map_of vals ''name'' of
             Some n \<Rightarrow> (Some (PInt 55), st\<lparr>sim_views := sim_views st @ [n]\<rparr>)
           | None \<Rightarrow> (None, st))
      | _ \<Rightarrow> (None, st))"

definition sim_execute_kw :: "sim \<Rightarrow> rpc \<Rightarrow> pyval option \<times> sim" where
  "sim_execute_kw st c =
     (if c = template_search (PStr ''Vibration Test'') then (Some (PList [PInt 1]), st)
      else if rpc_model c = ''worksheet.template'' \<and> rpc_method c = ''search''
        then (Some (PList []), st)
      else if c = template_read (PInt 1)
        then (Some (PList [PDict [(''id'', PInt 1), (''name'', PStr ''Vibration Test''),
                                  (''model_id'', PList [PInt 7, PStr ''Vibration Test''])]]), st)
      else if c = model_read (PInt 7)
        then (Some (PList [PDict [(''id'', PInt 7), (''model'', sim_model),
                                  (''name'', PStr ''Vibration Test'')]]), st)
      else if c = model_search sim_model then (Some (PList [PInt 7]), st)
      else if c \<in> set (map (field_search sim_model) (sim_fields st))
        then (Some (PList [PInt 100]), st)
      else if is_field_search c then (Some (PList []), st)
      else if is_field_create c then sim_field_create st (rpc_args c)
      else if c \<in> set (map (\<lambda>n. view_search (case n of PStr s \<Rightarrow> s | _ \<Rightarrow> []) sim_model) (sim_views st))
        then (Some (PList [PInt 55]), st)
      else if rpc_model c = ''ir.ui.view'' \<and> rpc_method c = ''search'' then (Some (PList []), st)
      else if rpc_model c = ''ir.ui.view'' \<and> rpc_method c = ''create''
        then sim_view_create st (rpc_args c)
      else if rpc_model c = ''ir.ui.view'' \<and> rpc_method c = ''write'' then (Some (PBool True), st)
      else if rpc_model c = ''ir.default'' \<and> rpc_method c = ''set'' then (Some (PBool True), st)
      else (None, st))"

definition sim_host :: "sim host" where
  "sim_host = \<lparr>execute_kw = sim_execute_kw, py_repr = (\<lambda>v. ''?'')\<rparr>"

definition sim_world :: "pyval list \<Rightarrow> sim world" where
  "sim_world names = \<lparr>remote = \<lparr>sim_fields = names, sim_views = []\<rparr>, trace = []\<rparr>"

text \<open>The world the scenario's resolution step leaves behind, for a given remote state.\<close>

definition resolved_world :: "sim \<Rightarrow> sim world" where
  "resolved_world st =
     \<lparr>remote = st,
      trace = [template_search (PStr ''Vibration Test''), template_read (PInt 1),
               model_read (PInt 7)]\<rparr>"

text \<open>A remote that cannot be reached: every call raises.\<close>

definition offline_host :: "unit host" where
  "offline_host = \<lparr>execute_kw = (\<lambda>r c. (None, r)), py_repr = (\<lambda>v. ''?'')\<rparr>"

definition offline_world :: "unit world" where
  "offline_world = \<lparr>remote = (), trace = []\<rparr>"

text \<open>
  Field declarations: the one of the specification's scenario, one whose name the remote
  refuses, and one with a type tag outside the vocabulary.
\<close>

definition objective_field :: pyval where
  "objective_field =
     PDict [(''name'', PStr ''x_test_objective''), (''field_type'', PStr ''text''),
            (''label'', PStr ''Objective'')]"

definition bad_field :: pyval where
  "bad_field =
     PDict [(''name'', PStr ''reading''), (''field_type'', PStr ''float''),
            (''label'', PStr ''Reading'')]"

definition odd_field :: pyval where
  "odd_field =
     PDict [(''name'', PStr ''x_reading''), (''field_type'', PStr ''number''),
            (''label'', PStr ''Reading'')]"

text \<open>
  Templates: the scenario's template \<^verbatim>\<open>Vibration Test\<close> with a given field list, a template the
  remote does not know, one whose template code is a number, and one for the temperature
  layout.
\<close>

definition vibration_template :: "pyval list \<Rightarrow> pyval" where
  "vibration_template declared =
     PDict [(''template_name'', PStr ''Vibration Test''), (''fields'', PList declared)]"

definition unknown_template :: pyval where
  "unknown_template =
     PDict [(''template_name'', PStr ''Unknown''), (''fields'', PList [objective_field])]"

definition broken_code_template :: pyval where
  "broken_code_template =
     PDict [(''template_name'', PStr ''Vibration Test''), (''template_code'', PInt 3),
            (''fields'', PList [objective_field])]"

definition temperatura_config :: "pyval \<Rightarrow> pyval" where
  "temperatura_config declared =
     PDict [(''template_name'', PStr ''Test de temperatura''),
            (''template_code'', PStr ''TEST_TEMPERATURA''),
            (''fields'', declared)]"

text \<open>
  Two runs of odd_temp_veb.py on the scenario, the second against the remote state the
  first has left.
\<close>

definition first_run :: "(exn + run_result) \<times> sim world" where
  "first_run =
     design_template Odd_temp_veb sim_host (Inr (vibration_template [objective_field]))
       (sim_world [])"

definition second_run :: "(exn + run_result) \<times> sim world" where
  "second_run =
     design_template Odd_temp_veb sim_host (Inr (vibration_template [objective_field]))
       \<lparr>remote = remote (snd first_run), trace = []\<rparr>"

section \<open>Properties\<close>

subsection \<open>Programs and the calls they issue\<close>

lemmas prog_defs = bind_def ret_def lift_def try_except_def execute_def

lemma issuesD: "issues P m \<Longrightarrow> \<exists>cs. trace (snd (m w)) = trace w @ cs \<and> list_all P cs"
  by (simp add: issues_def)

lemma issues_ret [intro!, simp]: "issues P (ret x)"
  by (simp add: issues_def ret_def)

lemma issues_lift [intro!, simp]: "issues P (lift m)"
  by (simp add: issues_def lift_def)

lemma issues_execute [intro]: "P c \<Longrightarrow> issues P (execute h c)"
  by (simp add: issues_def execute_def split: prod.splits option.splits)

lemma issues_bind [intro!]:
  assumes "issues P m" and "\<And>x. issues P (f x)"
  shows "issues P (bind m f)"
  unfolding issues_def
proof
  fix w
  obtain cs where cs: "trace (snd (m w)) = trace w @ cs" "list_all P cs"
    using assms(1) issuesD by blast
  show "\<exists>cs. trace (snd (bind m f w)) = trace w @ cs \<and> list_all P cs"
  proof (cases "m w")
    case (Pair r w1)
    show ?thesis
    proof (cases r)
      case (Inl e)
      with Pair cs show ?thesis by (auto simp: bind_def)
    next
      case (Inr x)
      obtain ds where ds: "trace (snd (f x w1)) = trace w1 @ ds" "list_all P ds"
        using assms(2) issuesD by blast
      with Pair Inr cs show ?thesis by (auto simp: bind_def)
    qed
  qed
qed

lemma issues_try [intro!]: "issues P m \<Longrightarrow> issues P (try_except m d)"
  unfolding issues_def
proof
  fix w
  assume a: "\<forall>w. \<exists>cs. trace (snd (m w)) = trace w @ cs \<and> list_all P cs"
  then obtain cs where "trace (snd (m w)) = trace w @ cs" "list_all P cs" by blast
  then show "\<exists>cs. trace (snd (try_except m d w)) = trace w @ cs \<and> list_all P cs"
    by (cases "m w") (auto simp: try_except_def split: sum.splits)
qed

lemma issues_if [intro!]: "issues P a \<Longrightarrow> issues P b \<Longrightarrow> issues P (if c then a else b)"
  by simp

lemma issues_option [intro!]:
  "issues P a \<Longrightarrow> (\<And>v. issues P (b v)) \<Longrightarrow> issues P (case x of None \<Rightarrow> a | Some v \<Rightarrow> b v)"
  by (cases x) simp_all

lemma issues_weaken: "issues P m \<Longrightarrow> (\<And>c. P c \<Longrightarrow> Q c) \<Longrightarrow> issues Q m"
  unfolding issues_def by (meson list.pred_mono_strong)

lemma try_except_returns: "\<exists>x. fst (try_except m d w) = Inr x"
  by (cases "m w") (auto simp: try_except_def split: sum.splits)

lemma snd_try_except: "snd (try_except m d w) = snd (m w)"
  by (cases "m w") (auto simp: try_except_def split: sum.splits)

lemma execute_world:
  "snd (execute h c w) = \<lparr>remote = snd (execute_kw h (remote w) c), trace = trace w @ [c]\<rparr>"
  by (simp add: execute_def split: prod.splits option.splits)

lemma bind_execute_trace:
  assumes "\<And>x. issues P (f x)"
  shows "\<exists>cs. trace (snd (bind (execute h c) f w)) = trace w @ c # cs"
proof (cases "execute h c w")
  case (Pair r w1)
  have t: "trace w1 = trace w @ [c]"
    using execute_world [of h c w] Pair by simp
  show ?thesis
  proof (cases r)
    case (Inl e)
    with Pair t show ?thesis by (simp add: bind_def)
  next
    case (Inr x)
    obtain ds where "trace (snd (f x w1)) = trace w1 @ ds"
      using issuesD [OF assms] by blast
    with Pair Inr t show ?thesis by (simp add: bind_def)
  qed
qed

lemma new_calls_append: "trace w' = trace w @ cs \<Longrightarrow> new_calls w w' = cs"
  by (simp add: new_calls_def)

lemma filter_none: "list_all (\<lambda>c. \<not> P c) cs \<Longrightarrow> filter P cs = []"
  by (induction cs) auto

subsection \<open>The calls of each operation\<close>

lemma find_issues: "issues is_resolution_call (find_worksheet_template_by_name h n)"
  unfolding find_worksheet_template_by_name_def find_body_def
  by (intro issues_try issues_bind issues_if issues_ret issues_lift issues_execute)
     (simp_all add: is_resolution_call_def template_search_def template_read_def model_read_def)

lemma find_returns: "\<exists>found. fst (find_worksheet_template_by_name h n w) = Inr found"
  unfolding find_worksheet_template_by_name_def by (rule try_except_returns)

lemma check_trace:
  "trace (snd (check_field_exists h m nm w)) = trace w @ [field_search m nm]"
  by (simp add: check_field_exists_def prog_defs split: prod.splits option.splits sum.splits)

lemma check_returns: "\<exists>b. fst (check_field_exists h m nm w) = Inr b"
  unfolding check_field_exists_def by (rule try_except_returns)

lemma check_fault:
  assumes "fst (execute_kw h (remote w) (field_search m nm)) = None"
  shows "fst (check_field_exists h m nm w) = Inr False"
  using assms
  by (cases "execute_kw h (remote w) (field_search m nm)")
     (simp add: check_field_exists_def prog_defs)

lemma check_eval:
  "check_field_exists h m nm w =
     (Inr (field_found h m nm (remote w)),
      \<lparr>remote = snd (execute_kw h (remote w) (field_search m nm)),
       trace = trace w @ [field_search m nm]\<rparr>)"
  by (cases "execute_kw h (remote w) (field_search m nm)")
     (auto simp: check_field_exists_def field_found_def prog_defs split: option.splits sum.splits)

lemma set_default_issues: "issues (\<lambda>c. \<not> is_field_search c) (set_field_default h m nm v)"
  unfolding set_field_default_def
  by (intro issues_try issues_bind issues_ret issues_execute)
     (simp add: is_field_search_def default_set_def)

lemma create_body_issues:
  "issues (\<lambda>c. \<not> is_field_search c) (try_except (create_body s h m fc nm) False)"
  unfolding create_body_def
  by (intro issues_try issues_bind issues_if issues_ret issues_lift issues_execute issues_option
        set_default_issues)
     (simp_all add: is_field_search_def model_search_def field_create_def)

lemma create_body_first_call:
  "\<exists>cs. trace (snd (create_body s h m fc nm w)) = trace w @ model_search m # cs"
  unfolding create_body_def
  by (rule bind_execute_trace [where P = "\<lambda>c. True"])
     (intro issues_try issues_bind issues_if issues_ret issues_lift issues_execute issues_option
        issues_weaken [OF set_default_issues] TrueI)

lemma create_field_returns:
  assumes "subscript ''name'' fc = Inr nm"
  shows "\<exists>b. fst (create_field s h m fc w) = Inr b"
proof -
  obtain b where b: "fst (check_field_exists h m nm w) = Inr b"
    using check_returns by blast
  obtain x where x: "fst (try_except (create_body s h m fc nm) False (snd (check_field_exists h m nm w))) = Inr x"
    using try_except_returns [of "create_body s h m fc nm" False "snd (check_field_exists h m nm w)"]
    by auto
  show ?thesis
    using assms b x
    by (cases "check_field_exists h m nm w") (auto simp: create_field_def bind_def lift_def ret_def)
qed

lemma create_field_trace:
  assumes "subscript ''name'' fc = Inr nm"
  shows "\<exists>cs. trace (snd (create_field s h m fc w)) = trace w @ field_search m nm # cs
              \<and> list_all (\<lambda>c. \<not> is_field_search c) cs"
proof -
  obtain b w1 where c: "check_field_exists h m nm w = (Inr b, w1)"
    using check_returns [of h m nm w] by (cases "check_field_exists h m nm w") auto
  have t1: "trace w1 = trace w @ [field_search m nm]"
    using check_trace [of h m nm w] c by simp
  obtain cs where cs: "trace (snd (try_except (create_body s h m fc nm) False w1)) = trace w1 @ cs"
      "list_all (\<lambda>c. \<not> is_field_search c) cs"
    using issuesD [OF create_body_issues] by blast
  show ?thesis
    using assms c t1 cs by (auto simp: create_field_def bind_def lift_def ret_def)
qed

lemma create_field_cases:
  assumes "subscript ''name'' fc = Inr nm"
  obtains b w1 cs where "create_field s h m fc w = (Inr b, w1)"
    and "trace w1 = trace w @ field_search m nm # cs"
    and "list_all (\<lambda>c. \<not> is_field_search c) cs"
proof -
  obtain b where b: "fst (create_field s h m fc w) = Inr b"
    using create_field_returns [OF assms] by blast
  obtain cs where cs: "trace (snd (create_field s h m fc w)) = trace w @ field_search m nm # cs"
      "list_all (\<lambda>c. \<not> is_field_search c) cs"
    using create_field_trace [OF assms] by blast
  show ?thesis
    using that [of b "snd (create_field s h m fc w)" cs] b cs
    by (cases "create_field s h m fc w") auto
qed

lemma field_search_is [simp]: "is_field_search (field_search m nm)"
  by (simp add: is_field_search_def field_search_def)

lemma view_returns:
  "create_worksheet_view s h m t w =
     (Inr (case fst (view_body s h m t w) of Inl e \<Rightarrow> PNone | Inr v \<Rightarrow> v),
      snd (view_body s h m t w))"
  by (cases "view_body s h m t w")
     (auto simp: create_worksheet_view_def try_except_def split: sum.splits)

lemma view_issues: "issues is_view_call (create_worksheet_view s h m t)"
  unfolding create_worksheet_view_def view_body_def
  by (intro issues_try issues_bind issues_if issues_ret issues_lift issues_execute)
     (simp_all add: is_view_call_def view_search_def view_write_def view_create_def)

lemma extend_sel [simp]:
  "failed (results.extend res x) = failed res"
  "created (results.extend res x) = created res"
  "failed_fields (results.extend res x) = failed_fields res"
  "total_fields (results.extend res x) = total_fields res"
  "template_name (results.extend res x) = template_name res"
  "template_id (results.extend res x) = template_id res"
  "worksheet_model (results.extend res x) = worksheet_model res"
  "view_id (results.extend res \<lparr>view_id = v, success = b\<rparr>) = v"
  "success (results.extend res \<lparr>view_id = v, success = b\<rparr>) = b"
  by (cases res; simp add: results.extend_def results.defs report.defs)+

lemma pylen_iter:
  assumes "pylen v = Inr n"
  shows "\<exists>items. py_iter v = Inr items \<and> length items = n"
  using assms by (cases v) auto

lemma design_completed:
  assumes "subscript ''template_name'' template = Inr name"
    and "subscript ''fields'' template = Inr declared"
    and "pylen declared = Inr n"
    and "py_iter declared = Inr items"
    and "find_worksheet_template_by_name h name w = (Inr found, w1)"
    and "truthy (fst found)" and "truthy (snd found)"
    and "add_fields s h (snd found) items (initial_results name found n) w1 = (Inr res, w2)"
    and "create_worksheet_view s h (snd found) template w2 = (Inr vid, w3)"
    and "summary res = Inr ()"
  shows "design_template s h (Inr template) w =
           (Inr (Completed (results.extend res \<lparr>view_id = vid, success = (vid \<noteq> PNone)\<rparr>)), w3)"
  using assms
  by (simp add: design_template_def bind_def lift_def ret_def initial_results_def)

lemma design_not_found:
  assumes "subscript ''template_name'' template = Inr name"
    and "subscript ''fields'' template = Inr declared"
    and "pylen declared = Inr n"
    and "find_worksheet_template_by_name h name w = (Inr found, w1)"
    and "\<not> truthy (fst found) \<or> \<not> truthy (snd found)"
  shows "design_template s h (Inr template) w = (Inr NotFound, w1)"
  using assms by (auto simp: design_template_def bind_def lift_def ret_def)

subsection \<open>Concrete runs\<close>

lemmas call_defs = template_search_def template_read_def model_read_def field_search_def
  model_search_def field_create_def default_set_def view_search_def view_write_def
  view_create_def

lemmas sim_defs = sim_host_def sim_execute_kw_def sim_world_def sim_model_def
  sim_field_create_def sim_view_create_def custom_name_def is_field_search_def
  is_field_create_def

lemmas run_defs = design_template_def find_worksheet_template_by_name_def find_body_def
  create_field_def create_body_def check_field_exists_def field_values_of_def
  create_worksheet_view_def view_body_def summary_def set_field_default_def given_default_def
  generate_worksheet_xml_vibracion_def vibracion_default_step_def ebind_def
  field_type_vocabulary_def replace_dots_def

lemmas field_defs = objective_field_def bad_field_def odd_field_def

lemma find_sim:
  "find_worksheet_template_by_name sim_host (PStr ''Vibration Test'') \<lparr>remote = st, trace = []\<rparr>
     = (Inr (PInt 1, sim_model), resolved_world st)"
  by (simp add: find_worksheet_template_by_name_def find_body_def prog_defs ebind_def call_defs
      sim_host_def sim_execute_kw_def sim_model_def resolved_world_def)

lemma find_sim_initial:
  "find_worksheet_template_by_name sim_host (PStr ''Vibration Test'') (sim_world [])
     = (Inr (PInt 1, sim_model), resolved_world \<lparr>sim_fields = [], sim_views = []\<rparr>)"
  using find_sim [of "\<lparr>sim_fields = [], sim_views = []\<rparr>"] by (simp add: sim_world_def)

lemma first_run_eval:
  "first_run =
     (Inr (Completed \<lparr>template_name = PStr ''Vibration Test'', template_id = PInt 1,
          worksheet_model = PStr ''x_fsm_vibration'', total_fields = 1,
          created = 1, failed = 0, failed_fields = [], view_id = PInt 55,
          success = True\<rparr>),
      \<lparr>remote = \<lparr>sim_fields = [PStr ''x_test_objective''],
                  sim_views = [PStr ''view_x_fsm_vibration_form'']\<rparr>,
       trace = [template_search (PStr ''Vibration Test''), template_read (PInt 1),
                model_read (PInt 7),
                field_search sim_model (PStr ''x_test_objective''), model_search sim_model,
                field_create [(''name'', PStr ''x_test_objective''),
                  (''field_description'', PStr ''Objective''), (''model_id'', PInt 7),
                  (''ttype'', PStr ''text''), (''state'', PStr ''manual''),
                  (''required'', PBool False), (''readonly'', PBool False)],
                view_search ''view_x_fsm_vibration_form'' sim_model,
                view_create ''view_x_fsm_vibration_form'' sim_model
                  (form_open @ ''Vibration Test'' @ vibracion_xml_body)]\<rparr>)"
  by (simp add: first_run_def vibration_template_def objective_field_def run_defs prog_defs
      call_defs sim_defs results.extend_def results.defs report.defs)

lemma second_run_eval:
  "second_run =
     (Inr (Completed \<lparr>template_name = PStr ''Vibration Test'', template_id = PInt 1,
          worksheet_model = PStr ''x_fsm_vibration'', total_fields = 1,
          created = 1, failed = 0, failed_fields = [], view_id = PInt 55,
          success = True\<rparr>),
      \<lparr>remote = \<lparr>sim_fields = [PStr ''x_test_objective''],
                  sim_views = [PStr ''view_x_fsm_vibration_form'']\<rparr>,
       trace = [template_search (PStr ''Vibration Test''), template_read (PInt 1),
                model_read (PInt 7),
                field_search sim_model (PStr ''x_test_objective''),
                view_search ''view_x_fsm_vibration_form'' sim_model,
                view_write (PInt 55) (form_open @ ''Vibration Test'' @ vibracion_xml_body)]\<rparr>)"
  by (simp add: second_run_def first_run_eval)
     (simp add: vibration_template_def objective_field_def run_defs prog_defs
      call_defs sim_defs results.extend_def results.defs report.defs)

subsection \<open>Idempotent field synchronization\<close>

lemma create_field_existing:
  assumes "subscript ''name'' fc = Inr nm" and "field_found h m nm (remote w)"
  shows "create_field s h m fc w =
     (Inr True, \<lparr>remote = snd (execute_kw h (remote w) (field_search m nm)),
                 trace = trace w @ [field_search m nm]\<rparr>)"
  using assms by (simp add: create_field_def bind_def lift_def ret_def check_eval)

lemma add_fields_existing:
  assumes "\<forall>r. P r \<longrightarrow> (\<forall>fc \<in> set fs. \<exists>nm. subscript ''name'' fc = Inr nm
              \<and> field_found h m nm r \<and> P (snd (execute_kw h r (field_search m nm))))"
    and "set gs \<subseteq> set fs" and "P (remote w)"
  shows "\<exists>w2. add_fields s h m gs res w = (Inr (res\<lparr>created := created res + length gs\<rparr>), w2)
           \<and> trace w2 = trace w @ map (\<lambda>fc. field_search m (name_of fc)) gs
           \<and> P (remote w2)"
  using assms(2,3)
proof (induction gs arbitrary: res w)
  case Nil
  then show ?case by (simp add: ret_def)
next
  case (Cons fc gs)
  from Cons.prems assms(1) obtain nm where nm: "subscript ''name'' fc = Inr nm"
      and ff: "field_found h m nm (remote w)"
      and p1: "P (snd (execute_kw h (remote w) (field_search m nm)))"
    by (meson list.set_intros(1) subsetD)
  let ?w1 = "\<lparr>remote = snd (execute_kw h (remote w) (field_search m nm)),
                 trace = trace w @ [field_search m nm]\<rparr>"
  have c: "create_field s h m fc w = (Inr True, ?w1)"
    using create_field_existing [OF nm ff] .
  have step: "add_fields s h m (fc # gs) res w
      = add_fields s h m gs (res\<lparr>created := created res + 1\<rparr>) ?w1"
    using nm c by (simp add: bind_def lift_def)
  have sub: "set gs \<subseteq> set fs" using Cons.prems by simp
  have p: "P (remote ?w1)" using p1 by simp
  obtain w2 where "add_fields s h m gs (res\<lparr>created := created res + 1\<rparr>) ?w1
         = (Inr (res\<lparr>created := created res + 1,
                     created := created (res\<lparr>created := created res + 1\<rparr>) + length gs\<rparr>), w2)"
      and "trace w2 = trace ?w1 @ map (\<lambda>fc. field_search m (name_of fc)) gs"
      and "P (remote w2)"
    using Cons.IH [OF sub p, of "res\<lparr>created := created res + 1\<rparr>"] by blast
  then show ?case
    unfolding step using nm by (simp add: name_of_def)
qed

text \<open>
  Claim C1, as the code has it. A field the remote reports as existing is skipped:
  \<^verbatim>\<open>create_field\<close> returns \<^verbatim>\<open>True\<close> and issues the existence query only, no creation call.
  A run over a field list all of whose fields exist (\<open>P\<close> is any property of the remote
  state that makes the existence queries of the list succeed and that they preserve)
  completes with no creation call at all, one existence query per field, no failed field,
  and every field counted in \<^verbatim>\<open>created\<close>: the result has no count of skipped fields, and a
  skipped field is counted as a created one.
\<close>

theorem existing_fields_are_skipped:
  assumes "subscript ''template_name'' template = Inr name"
    and "subscript ''fields'' template = Inr (PList fs)"
    and "find_worksheet_template_by_name h name w = (Inr found, w1)"
    and "truthy (fst found)" and "truthy (snd found)"
    and "\<forall>r. P r \<longrightarrow> (\<forall>fc \<in> set fs. \<exists>nm. subscript ''name'' fc = Inr nm
              \<and> field_found h (snd found) nm r
              \<and> P (snd (execute_kw h r (field_search (snd found) nm))))"
    and "P (remote w1)"
  shows "(\<forall>m fc nm w0. subscript ''name'' fc = Inr nm \<and> field_found h m nm (remote w0)
            \<longrightarrow> fst (create_field s h m fc w0) = Inr True
                \<and> new_calls w0 (snd (create_field s h m fc w0)) = [field_search m nm])
       \<and> (\<exists>rep w3. design_template s h (Inr template) w = (Inr (Completed rep), w3)
             \<and> total_fields rep = length fs \<and> created rep = length fs
             \<and> failed rep = 0 \<and> failed_fields rep = []
             \<and> filter is_field_create (new_calls w w3) = []
             \<and> filter is_field_search (new_calls w w3)
                 = map (\<lambda>fc. field_search (snd found) (name_of fc)) fs)"
proof -
  have one: "fst (create_field s h m fc w0) = Inr True
                \<and> new_calls w0 (snd (create_field s h m fc w0)) = [field_search m nm]"
    if "subscript ''name'' fc = Inr nm" "field_found h m nm (remote w0)" for m fc nm w0
    using create_field_existing [OF that] by (simp add: new_calls_def)
  let ?m = "snd found"
  let ?init = "initial_results name found (length fs)"
  obtain w2 where a: "add_fields s h ?m fs ?init w1
        = (Inr (?init\<lparr>created := created ?init + length fs\<rparr>), w2)"
      and t2: "trace w2 = trace w1 @ map (\<lambda>fc. field_search ?m (name_of fc)) fs"
    using add_fields_existing [OF assms(6) subset_refl assms(7), of s ?init] by blast
  let ?res = "?init\<lparr>created := created ?init + length fs\<rparr>"
  have sm: "summary ?res = Inr ()" by (simp add: summary_def initial_results_def)
  let ?vid = "case fst (view_body s h ?m template w2) of Inl e \<Rightarrow> PNone | Inr v \<Rightarrow> v"
  let ?end = "snd (view_body s h ?m template w2)"
  let ?rep = "results.extend ?res \<lparr>view_id = ?vid, success = (?vid \<noteq> PNone)\<rparr>"
  have d: "design_template s h (Inr template) w = (Inr (Completed ?rep), ?end)"
    using design_completed [OF assms(1,2) _ _ assms(3,4,5) a view_returns sm] by simp
  obtain cs where t1: "trace (snd (find_worksheet_template_by_name h name w)) = trace w @ cs"
      and r1: "list_all is_resolution_call cs"
    using issuesD [OF find_issues] by blast
  obtain ds where t3: "trace (snd (create_worksheet_view s h ?m template w2)) = trace w2 @ ds"
      and v3: "list_all is_view_call ds"
    using issuesD [OF view_issues] by blast
  have nc: "new_calls w ?end = cs @ map (\<lambda>fc. field_search ?m (name_of fc)) fs @ ds"
    using t1 t2 t3 assms(3) by (simp add: view_returns new_calls_append)
  have "list_all (\<lambda>c. \<not> is_field_create c) cs"
    using r1 by (auto simp: list_all_iff is_resolution_call_def is_field_create_def)
  then have c1: "filter is_field_create cs = []" by (rule filter_none)
  have "list_all (\<lambda>c. \<not> is_field_search c) cs"
    using r1 by (auto simp: list_all_iff is_resolution_call_def is_field_search_def)
  then have c2: "filter is_field_search cs = []" by (rule filter_none)
  have "list_all (\<lambda>c. \<not> is_field_create c) ds"
    using v3 by (auto simp: list_all_iff is_view_call_def is_field_create_def)
  then have d1: "filter is_field_create ds = []" by (rule filter_none)
  have "list_all (\<lambda>c. \<not> is_field_search c) ds"
    using v3 by (auto simp: list_all_iff is_view_call_def is_field_search_def)
  then have d2: "filter is_field_search ds = []" by (rule filter_none)
  have m1: "filter is_field_create (map (\<lambda>fc. field_search ?m (name_of fc)) fs) = []"
    by (induction fs) (simp_all add: is_field_create_def field_search_def)
  have m2: "filter is_field_search (map (\<lambda>fc. field_search ?m (name_of fc)) fs)
      = map (\<lambda>fc. field_search ?m (name_of fc)) fs"
    by (induction fs) simp_all
  have "total_fields ?rep = length fs \<and> created ?rep = length fs
             \<and> failed ?rep = 0 \<and> failed_fields ?rep = []"
    by (simp add: initial_results_def)
  moreover have "filter is_field_create (new_calls w ?end) = []"
    using nc c1 d1 m1 by simp
  moreover have "filter is_field_search (new_calls w ?end)
                 = map (\<lambda>fc. field_search ?m (name_of fc)) fs"
    using nc c2 d2 m2 by simp
  ultimately have "\<exists>rep w3. design_template s h (Inr template) w = (Inr (Completed rep), w3)
             \<and> total_fields rep = length fs \<and> created rep = length fs
             \<and> failed rep = 0 \<and> failed_fields rep = []
             \<and> filter is_field_create (new_calls w w3) = []
             \<and> filter is_field_search (new_calls w w3)
                 = map (\<lambda>fc. field_search (snd found) (name_of fc)) fs"
    using d by (intro exI [of _ ?rep] exI [of _ ?end]) simp
  with one show ?thesis by blast
qed

text \<open>
  An instance of C1: the second of two runs of the scenario, where the remote keeps the field
  the first run created.
\<close>

theorem existing_fields_are_skipped_witness:
  "\<exists>rep w3. second_run = (Inr (Completed rep), w3)
     \<and> created rep = 1 \<and> failed rep = 0 \<and> failed_fields rep = []
     \<and> filter is_field_create (new_calls \<lparr>remote = remote (snd first_run), trace = []\<rparr> w3) = []"
proof -
  let ?P = "\<lambda>r. PStr ''x_test_objective'' \<in> set (sim_fields r)"
  let ?st = "remote (snd first_run)"
  have 1: "subscript ''template_name'' (vibration_template [objective_field])
      = Inr (PStr ''Vibration Test'')"
    by (simp add: vibration_template_def)
  have 2: "subscript ''fields'' (vibration_template [objective_field])
      = Inr (PList [objective_field])"
    by (simp add: vibration_template_def)
  have 3: "find_worksheet_template_by_name sim_host (PStr ''Vibration Test'')
      \<lparr>remote = ?st, trace = []\<rparr> = (Inr (PInt 1, sim_model), resolved_world ?st)"
    by (rule find_sim)
  have 4: "truthy (fst (PInt 1, sim_model))" by simp
  have 5: "truthy (snd (PInt 1, sim_model))" by (simp add: sim_model_def)
  have 6: "\<forall>r. ?P r \<longrightarrow> (\<forall>fc \<in> set [objective_field]. \<exists>nm. subscript ''name'' fc = Inr nm
              \<and> field_found sim_host (snd (PInt 1, sim_model)) nm r
              \<and> ?P (snd (execute_kw sim_host r (field_search (snd (PInt 1, sim_model)) nm))))"
    by (auto simp: objective_field_def field_found_def sim_host_def sim_execute_kw_def call_defs
        sim_model_def image_iff)
  have 7: "?P (remote (resolved_world ?st))"
    by (simp add: resolved_world_def first_run_eval)
  from existing_fields_are_skipped [of "vibration_template [objective_field]", OF 1 2 3 4 5 6 7,
      of Odd_temp_veb]
  show ?thesis by (simp add: second_run_def) blast
qed

text \<open>
  Claim C1 as stated asks that the result of a second run reports every field as skipped.
  On the scenario the second run issues no creation call, and its result reports one created
  field: it is the very result of the first run, which did create the field.
\<close>

theorem skipped_field_is_reported_as_created:
  "fst second_run =
     Inr (Completed \<lparr>template_name = PStr ''Vibration Test'', template_id = PInt 1,
          worksheet_model = PStr ''x_fsm_vibration'', total_fields = 1,
          created = 1, failed = 0, failed_fields = [], view_id = PInt 55,
          success = True\<rparr>)
   \<and> fst second_run = fst first_run
   \<and> filter is_field_create (trace (snd second_run)) = []
   \<and> filter is_field_create (trace (snd first_run)) \<noteq> []"
  by (simp add: first_run_eval second_run_eval) (simp add: call_defs is_field_create_def)

subsection \<open>The success flag\<close>

text \<open>
  Claim C2. For a run that resolves its template, completes the loop over the fields with
  the results \<open>res\<close> and produces its summary, the success flag of the result is true
  exactly when the body of \<^verbatim>\<open>create_worksheet_view\<close> returned a value other than \<^verbatim>\<open>None\<close>; an
  exception in the body makes it false. The number of failed fields is carried into the
  result and has no part in the flag.
\<close>

theorem success_follows_view_step:
  assumes "subscript ''template_name'' template = Inr name"
    and "subscript ''fields'' template = Inr declared"
    and "pylen declared = Inr n"
    and "py_iter declared = Inr items"
    and "find_worksheet_template_by_name h name w = (Inr found, w1)"
    and "truthy (fst found)" and "truthy (snd found)"
    and "add_fields s h (snd found) items (initial_results name found n) w1 = (Inr res, w2)"
    and "summary res = Inr ()"
  shows "\<exists>rep w3. design_template s h (Inr template) w = (Inr (Completed rep), w3)
           \<and> failed rep = failed res \<and> failed_fields rep = failed_fields res
           \<and> (success_of (Completed rep) \<longleftrightarrow>
                (\<exists>v. fst (view_body s h (snd found) template w2) = Inr v \<and> v \<noteq> PNone))
           \<and> (\<forall>e. fst (view_body s h (snd found) template w2) = Inl e
                 \<longrightarrow> \<not> success_of (Completed rep))"
proof -
  let ?vid = "case fst (view_body s h (snd found) template w2) of Inl e \<Rightarrow> PNone | Inr v \<Rightarrow> v"
  let ?rep = "results.extend res \<lparr>view_id = ?vid, success = (?vid \<noteq> PNone)\<rparr>"
  have "design_template s h (Inr template) w =
          (Inr (Completed ?rep), snd (view_body s h (snd found) template w2))"
    using design_completed [OF assms(1-8) view_returns assms(9)] .
  moreover have "success_of (Completed ?rep) \<longleftrightarrow>
      (\<exists>v. fst (view_body s h (snd found) template w2) = Inr v \<and> v \<noteq> PNone)"
    by (cases "fst (view_body s h (snd found) template w2)") simp_all
  moreover have "\<forall>e. fst (view_body s h (snd found) template w2) = Inl e
                 \<longrightarrow> \<not> success_of (Completed ?rep)"
    by simp
  moreover have "failed ?rep = failed res \<and> failed_fields ?rep = failed_fields res"
    by simp
  ultimately show ?thesis by blast
qed

text \<open>
  Two instances of C2: a run with one failed field whose layout is created, which succeeds,
  and a run with no failed field whose layout generation raises (the template code is a
  number), which does not.
\<close>

theorem success_follows_view_step_witness:
  "(\<exists>rep w3. design_template Odd_temp_veb sim_host
        (Inr (vibration_template [objective_field, bad_field])) (sim_world [])
          = (Inr (Completed rep), w3)
      \<and> failed rep = 1 \<and> success_of (Completed rep))
   \<and> (\<exists>rep w3. design_template Odoo_template_temp sim_host
        (Inr broken_code_template) (sim_world [])
          = (Inr (Completed rep), w3)
      \<and> failed rep = 0 \<and> \<not> success_of (Completed rep))"
proof -
  let ?found = "(PInt 1, sim_model)"
  let ?w1 = "resolved_world \<lparr>sim_fields = [], sim_views = []\<rparr>"
  have t: "truthy (fst ?found)" "truthy (snd ?found)" by (simp_all add: sim_model_def)
  have a1: "subscript ''template_name'' (vibration_template [objective_field, bad_field])
      = Inr (PStr ''Vibration Test'')"
    by (simp add: vibration_template_def)
  have a2: "subscript ''fields'' (vibration_template [objective_field, bad_field])
      = Inr (PList [objective_field, bad_field])"
    by (simp add: vibration_template_def)
  have a3: "pylen (PList [objective_field, bad_field]) = Inr 2" by simp
  have a4: "py_iter (PList [objective_field, bad_field]) = Inr [objective_field, bad_field]"
    by simp
  obtain res w2 where a5: "add_fields Odd_temp_veb sim_host (snd ?found)
        [objective_field, bad_field] (initial_results (PStr ''Vibration Test'') ?found 2) ?w1
          = (Inr res, w2)"
      and a6: "summary res = Inr ()" and a7: "failed res = 1"
      and a8: "\<exists>v. fst (view_body Odd_temp_veb sim_host (snd ?found)
                  (vibration_template [objective_field, bad_field]) w2) = Inr v \<and> v \<noteq> PNone"
    by (simp add: field_defs vibration_template_def run_defs prog_defs call_defs sim_defs
        initial_results_def resolved_world_def)
  have first: "\<exists>rep w3. design_template Odd_temp_veb sim_host
        (Inr (vibration_template [objective_field, bad_field])) (sim_world [])
          = (Inr (Completed rep), w3)
      \<and> failed rep = 1 \<and> success_of (Completed rep)"
    using success_follows_view_step [OF a1 a2 a3 a4 find_sim_initial t a5 a6] a7 a8
    by auto
  have b1: "subscript ''template_name'' broken_code_template = Inr (PStr ''Vibration Test'')"
    by (simp add: broken_code_template_def)
  have b2: "subscript ''fields'' broken_code_template = Inr (PList [objective_field])"
    by (simp add: broken_code_template_def)
  have b3: "pylen (PList [objective_field]) = Inr 1" by simp
  have b4: "py_iter (PList [objective_field]) = Inr [objective_field]" by simp
  obtain res' w2' where b5: "add_fields Odoo_template_temp sim_host (snd ?found)
        [objective_field] (initial_results (PStr ''Vibration Test'') ?found 1) ?w1
          = (Inr res', w2')"
      and b6: "summary res' = Inr ()" and b7: "failed res' = 0"
      and b8: "fst (view_body Odoo_template_temp sim_host (snd ?found)
                  broken_code_template w2') = Inl AttributeError"
    by (simp add: field_defs broken_code_template_def run_defs prog_defs call_defs sim_defs
        initial_results_def resolved_world_def generate_worksheet_xml_def)
  have second: "\<exists>rep w3. design_template Odoo_template_temp sim_host
        (Inr broken_code_template) (sim_world [])
          = (Inr (Completed rep), w3)
      \<and> failed rep = 0 \<and> \<not> success_of (Completed rep)"
    using success_follows_view_step [OF b1 b2 b3 b4 find_sim_initial t b5 b6] b7 b8
    by auto
  from first second show ?thesis by blast
qed

subsection \<open>Isolation of field failures\<close>

lemma add_fields_outcomes:
  assumes "\<forall>fc \<in> set fs. \<exists>nm. subscript ''name'' fc = Inr nm"
  shows "\<exists>w2 cs. add_fields s h m fs res w =
           (Inr (res\<lparr>created := created res + length (filter (\<lambda>ok. ok) (field_outcomes s h m fs w)),
                     failed := failed res + length (filter Not (field_outcomes s h m fs w)),
                     failed_fields := failed_fields res
                        @ failed_names fs (field_outcomes s h m fs w)\<rparr>), w2)
         \<and> trace w2 = trace w @ cs
         \<and> filter is_field_search cs = map (\<lambda>fc. field_search m (name_of fc)) fs"
  using assms
proof (induction fs arbitrary: res w)
  case Nil
  show ?case by (simp add: ret_def)
next
  case (Cons fc fs)
  obtain nm where nm: "subscript ''name'' fc = Inr nm" using Cons.prems by auto
  obtain b w1 cs where c: "create_field s h m fc w = (Inr b, w1)"
      and t1: "trace w1 = trace w @ field_search m nm # cs"
      and n1: "list_all (\<lambda>c. \<not> is_field_search c) cs"
    using create_field_cases [OF nm] by blast
  let ?next = "if b then res\<lparr>created := created res + 1\<rparr>
        else res\<lparr>failed := failed res + 1, failed_fields := failed_fields res @ [nm]\<rparr>"
  have rest: "\<forall>fc \<in> set fs. \<exists>nm. subscript ''name'' fc = Inr nm" using Cons.prems by simp
  obtain w2 ds where a: "add_fields s h m fs ?next w1 =
           (Inr (?next\<lparr>created := created ?next + length (filter (\<lambda>ok. ok) (field_outcomes s h m fs w1)),
                     failed := failed ?next + length (filter Not (field_outcomes s h m fs w1)),
                     failed_fields := failed_fields ?next
                        @ failed_names fs (field_outcomes s h m fs w1)\<rparr>), w2)"
      and t2: "trace w2 = trace w1 @ ds"
      and f2: "filter is_field_search ds = map (\<lambda>fc. field_search m (name_of fc)) fs"
    using Cons.IH [OF rest, of ?next w1] by blast
  have step: "add_fields s h m (fc # fs) res w = add_fields s h m fs ?next w1"
    using nm c by (simp add: bind_def lift_def)
  have outs: "field_outcomes s h m (fc # fs) w = b # field_outcomes s h m fs w1"
    using c by simp
  have nmo: "name_of fc = nm" using nm by (simp add: name_of_def)
  have tr: "trace w2 = trace w @ (field_search m nm # cs @ ds)"
    using t1 t2 by simp
  have fl: "filter is_field_search (field_search m nm # cs @ ds)
      = map (\<lambda>fc. field_search m (name_of fc)) (fc # fs)"
    using f2 filter_none [OF n1] nmo by simp
  show ?case
    unfolding step a outs
    using tr fl nmo by (cases b) auto
qed

lemma outcomes_partition:
  "length (filter (\<lambda>ok. ok) oks) + length (filter Not oks) = length oks"
  by (induction oks) simp_all

lemma field_outcomes_length [simp]: "length (field_outcomes s h m fs w) = length fs"
  by (induction fs arbitrary: w) simp_all

lemma failed_names_strings:
  assumes "\<forall>fc \<in> set fs. \<exists>nm. subscript ''name'' fc = Inr (PStr nm)"
  shows "\<forall>x \<in> set (failed_names fs oks). \<exists>t. x = PStr t"
  using assms
proof (induction fs oks rule: failed_names.induct)
  case (1 fc rest ok oks)
  then show ?case by (auto simp: name_of_def)
qed simp_all

lemma join_comma_strings:
  assumes "\<forall>x \<in> set xs. \<exists>t. x = PStr t"
  shows "\<exists>t. join_comma xs = Inr t"
  using assms
  by (induction xs rule: join_comma.induct) (auto simp: ebind_def)

lemma summary_strings:
  assumes "\<forall>x \<in> set (failed_fields res). \<exists>t. x = PStr t"
  shows "summary res = Inr ()"
  using join_comma_strings [OF assms] by (auto simp: summary_def ebind_def)

text \<open>
  Claim C3. Given a template whose fields are a list of \<open>N\<close> declarations, each with a
  string name, and whose resolution succeeds, the run completes with a result; every field
  has an outcome, the existence query of every field is issued, in order; the failed count
  is the number of fields for which \<^verbatim>\<open>create_field\<close> did not return \<^verbatim>\<open>True\<close>, the created
  count the number of the others, and the list of failed fields holds the names of the
  failed ones, in order.
\<close>

theorem field_failures_are_isolated:
  assumes "subscript ''template_name'' template = Inr name"
    and "subscript ''fields'' template = Inr (PList fs)"
    and "\<forall>fc \<in> set fs. \<exists>nm. subscript ''name'' fc = Inr (PStr nm)"
    and "find_worksheet_template_by_name h name w = (Inr found, w1)"
    and "truthy (fst found)" and "truthy (snd found)"
  shows "\<exists>rep w3. design_template s h (Inr template) w = (Inr (Completed rep), w3)
           \<and> total_fields rep = length fs
           \<and> length (field_outcomes s h (snd found) fs w1) = length fs
           \<and> failed rep = length (filter Not (field_outcomes s h (snd found) fs w1))
           \<and> created rep = length (filter (\<lambda>ok. ok) (field_outcomes s h (snd found) fs w1))
           \<and> created rep + failed rep = length fs
           \<and> failed_fields rep = failed_names fs (field_outcomes s h (snd found) fs w1)
           \<and> filter is_field_search (new_calls w1 w3)
               = map (\<lambda>fc. field_search (snd found) (name_of fc)) fs"
proof -
  let ?m = "snd found"
  let ?outs = "field_outcomes s h ?m fs w1"
  let ?init = "initial_results name found (length fs)"
  let ?res = "?init\<lparr>created := created ?init + length (filter (\<lambda>ok. ok) ?outs),
                     failed := failed ?init + length (filter Not ?outs),
                     failed_fields := failed_fields ?init @ failed_names fs ?outs\<rparr>"
  have names: "\<forall>fc \<in> set fs. \<exists>nm. subscript ''name'' fc = Inr nm"
    using assms(3) by blast
  obtain w2 cs where a: "add_fields s h ?m fs ?init w1 = (Inr ?res, w2)"
      and t2: "trace w2 = trace w1 @ cs"
      and f2: "filter is_field_search cs = map (\<lambda>fc. field_search ?m (name_of fc)) fs"
    using add_fields_outcomes [OF names, of s h ?m ?init w1] by blast
  have sm: "summary ?res = Inr ()"
    using failed_names_strings [OF assms(3)]
    by (intro summary_strings) (simp add: initial_results_def)
  let ?vid = "case fst (view_body s h ?m template w2) of Inl e \<Rightarrow> PNone | Inr v \<Rightarrow> v"
  let ?end = "snd (view_body s h ?m template w2)"
  let ?rep = "results.extend ?res \<lparr>view_id = ?vid, success = (?vid \<noteq> PNone)\<rparr>"
  have d: "design_template s h (Inr template) w = (Inr (Completed ?rep), ?end)"
    using design_completed [OF assms(1,2) _ _ assms(4,5,6) a view_returns sm] by simp
  obtain ds where t3: "trace (snd (create_worksheet_view s h ?m template w2)) = trace w2 @ ds"
      and v3: "list_all is_view_call ds"
    using issuesD [OF view_issues] by blast
  have "list_all (\<lambda>c. \<not> is_field_search c) ds"
    using v3 by (auto simp: list_all_iff is_view_call_def is_field_search_def)
  then have "filter is_field_search ds = []" by (rule filter_none)
  moreover have "new_calls w1 ?end = cs @ ds"
    using t2 t3 by (simp add: view_returns new_calls_append)
  ultimately have f: "filter is_field_search (new_calls w1 ?end)
      = map (\<lambda>fc. field_search ?m (name_of fc)) fs"
    using f2 by simp
  have "length (filter (\<lambda>ok. ok) ?outs) + length (filter Not ?outs) = length fs"
    using outcomes_partition [of ?outs] by simp
  then have "total_fields ?rep = length fs \<and> failed ?rep = length (filter Not ?outs)
      \<and> created ?rep = length (filter (\<lambda>ok. ok) ?outs)
      \<and> created ?rep + failed ?rep = length fs
      \<and> failed_fields ?rep = failed_names fs ?outs"
    by (simp add: initial_results_def)
  with d f show ?thesis by (intro exI [of _ ?rep] exI [of _ ?end]) simp
qed

text \<open>
  An instance of C3: three declarations, the second of which the remote refuses to create.
\<close>

theorem field_failures_are_isolated_witness:
  "\<exists>rep w3. design_template Odd_temp_veb sim_host
        (Inr (vibration_template [objective_field, bad_field, odd_field])) (sim_world [])
          = (Inr (Completed rep), w3)
      \<and> total_fields rep = 3 \<and> failed rep = 1 \<and> created rep = 2
      \<and> failed_fields rep = [PStr ''reading'']"
proof -
  let ?found = "(PInt 1, sim_model)"
  let ?w1 = "resolved_world \<lparr>sim_fields = [], sim_views = []\<rparr>"
  let ?fs = "[objective_field, bad_field, odd_field]"
  have t: "truthy (fst ?found)" "truthy (snd ?found)" by (simp_all add: sim_model_def)
  have a1: "subscript ''template_name'' (vibration_template ?fs) = Inr (PStr ''Vibration Test'')"
    by (simp add: vibration_template_def)
  have a2: "subscript ''fields'' (vibration_template ?fs) = Inr (PList ?fs)"
    by (simp add: vibration_template_def)
  have a3: "\<forall>fc \<in> set ?fs. \<exists>nm. subscript ''name'' fc = Inr (PStr nm)"
    by (simp add: field_defs)
  have outs: "field_outcomes Odd_temp_veb sim_host (snd ?found) ?fs ?w1 = [True, False, True]"
    by (simp add: field_defs run_defs prog_defs call_defs sim_defs resolved_world_def)
  have names: "failed_names ?fs [True, False, True] = [PStr ''reading'']"
    by (simp add: name_of_def bad_field_def)
  from field_failures_are_isolated [OF a1 a2 a3 find_sim_initial t, of Odd_temp_veb]
  show ?thesis unfolding outs names by auto
qed

subsection \<open>Failed resolution\<close>

lemma find_no_match:
  assumes "execute h (template_search name) w = (Inr ids, w1)" and "\<not> truthy ids"
  shows "find_worksheet_template_by_name h name w = (Inr (PNone, PNone), w1)"
  using assms by (simp add: find_worksheet_template_by_name_def find_body_def bind_def ret_def try_except_def)

lemma find_no_link:
  assumes "execute h (template_search name) w = (Inr ids, w1)" and "truthy ids"
    and "index0 ids = Inr tid"
    and "execute h (template_read tid) w1 = (Inr data, w2)"
    and "\<not> truthy data
         \<or> (\<exists>link. ebind (index0 data) (get_method ''model_id'' PNone) = Inr link \<and> \<not> truthy link)"
  shows "find_worksheet_template_by_name h name w = (Inr (PNone, PNone), w2)"
  using assms
  by (auto simp: find_worksheet_template_by_name_def find_body_def bind_def ret_def lift_def
      try_except_def)

lemma find_no_model:
  assumes "execute h (template_search name) w = (Inr ids, w1)" and "truthy ids"
    and "index0 ids = Inr tid"
    and "execute h (template_read tid) w1 = (Inr data, w2)" and "truthy data"
    and "ebind (index0 data) (get_method ''model_id'' PNone) = Inr link" and "truthy link"
    and "ebind (ebind (index0 data) (subscript ''model_id'')) index0 = Inr mid"
    and "execute h (model_read mid) w2 = (Inr mdata, w3)" and "\<not> truthy mdata"
  shows "find_worksheet_template_by_name h name w = (Inr (PNone, PNone), w3)"
  using assms
  by (simp add: find_worksheet_template_by_name_def find_body_def bind_def ret_def lift_def
      try_except_def)

lemma resolution_calls_only:
  assumes "list_all is_resolution_call cs"
  shows "\<forall>c \<in> set cs. \<not> is_field_search c \<and> \<not> is_field_create c \<and> \<not> is_view_call c"
  using assms
  by (auto simp: list_all_iff is_resolution_call_def is_field_search_def is_field_create_def
      is_view_call_def)

text \<open>
  Claim C4. When the search by template name returns no match, when the template record
  is missing or has no model, or when the model record is missing, the resolution returns
  \<^verbatim>\<open>(None, None)\<close>. Whenever the resolution returns a pair with a false component, the run
  returns \<^verbatim>\<open>{'success': False}\<close> at once: the only calls it has issued are those of the
  resolution, none of them an existence query, a field creation or a layout call.
\<close>

theorem resolution_failure_short_circuits:
  assumes "subscript ''template_name'' template = Inr name"
    and "subscript ''fields'' template = Inr declared"
    and "pylen declared = Inr n"
  shows "(\<forall>ids w1. execute h (template_search name) w = (Inr ids, w1) \<and> \<not> truthy ids
            \<longrightarrow> find_worksheet_template_by_name h name w = (Inr (PNone, PNone), w1))
       \<and> (\<forall>ids w1 tid data w2.
            execute h (template_search name) w = (Inr ids, w1) \<and> truthy ids
            \<and> index0 ids = Inr tid
            \<and> execute h (template_read tid) w1 = (Inr data, w2)
            \<and> (\<not> truthy data
               \<or> (\<exists>link. ebind (index0 data) (get_method ''model_id'' PNone) = Inr link
                         \<and> \<not> truthy link))
            \<longrightarrow> find_worksheet_template_by_name h name w = (Inr (PNone, PNone), w2))
       \<and> (\<forall>ids w1 tid data w2 link mid mdata w3.
            execute h (template_search name) w = (Inr ids, w1) \<and> truthy ids
            \<and> index0 ids = Inr tid
            \<and> execute h (template_read tid) w1 = (Inr data, w2) \<and> truthy data
            \<and> ebind (index0 data) (get_method ''model_id'' PNone) = Inr link \<and> truthy link
            \<and> ebind (ebind (index0 data) (subscript ''model_id'')) index0 = Inr mid
            \<and> execute h (model_read mid) w2 = (Inr mdata, w3) \<and> \<not> truthy mdata
            \<longrightarrow> find_worksheet_template_by_name h name w = (Inr (PNone, PNone), w3))
       \<and> (\<forall>found w1.
            find_worksheet_template_by_name h name w = (Inr found, w1)
            \<and> (\<not> truthy (fst found) \<or> \<not> truthy (snd found))
            \<longrightarrow> design_template s h (Inr template) w = (Inr NotFound, w1)
                \<and> \<not> success_of NotFound
                \<and> trace w1 = trace w @ new_calls w w1
                \<and> list_all is_resolution_call (new_calls w w1)
                \<and> (\<forall>c \<in> set (new_calls w w1).
                      \<not> is_field_search c \<and> \<not> is_field_create c \<and> \<not> is_view_call c))"
proof -
  have d: "design_template s h (Inr template) w = (Inr NotFound, w1)
                \<and> \<not> success_of NotFound
                \<and> trace w1 = trace w @ new_calls w w1
                \<and> list_all is_resolution_call (new_calls w w1)
                \<and> (\<forall>c \<in> set (new_calls w w1).
                      \<not> is_field_search c \<and> \<not> is_field_create c \<and> \<not> is_view_call c)"
    if f: "find_worksheet_template_by_name h name w = (Inr found, w1)"
      and n: "\<not> truthy (fst found) \<or> \<not> truthy (snd found)"
    for found w1
  proof -
    obtain cs where cs: "trace (snd (find_worksheet_template_by_name h name w)) = trace w @ cs"
        "list_all is_resolution_call cs"
      using issuesD [OF find_issues] by blast
    then have t: "trace w1 = trace w @ cs" using f by simp
    then have nc: "new_calls w w1 = cs" by (rule new_calls_append)
    show ?thesis
      using design_not_found [OF assms f n] t nc cs(2) resolution_calls_only [OF cs(2)]
      by simp
  qed
  show ?thesis
    using find_no_match [of h name w] find_no_link [of h name w] find_no_model [of h name w] d
    by blast
qed

text \<open>
  An instance of C4: a template name the remote does not know.
\<close>

theorem resolution_failure_short_circuits_witness:
  "design_template Odd_temp_veb sim_host (Inr unknown_template) (sim_world [])
     = (Inr NotFound,
        \<lparr>remote = \<lparr>sim_fields = [], sim_views = []\<rparr>,
         trace = [template_search (PStr ''Unknown'')]\<rparr>)"
proof -
  let ?w1 = "\<lparr>remote = \<lparr>sim_fields = [], sim_views = []\<rparr>,
         trace = [template_search (PStr ''Unknown'')]\<rparr>"
  have 1: "subscript ''template_name'' unknown_template = Inr (PStr ''Unknown'')"
    by (simp add: unknown_template_def)
  have 2: "subscript ''fields'' unknown_template = Inr (PList [objective_field])"
    by (simp add: unknown_template_def)
  have 3: "pylen (PList [objective_field]) = Inr 1" by simp
  have e: "execute sim_host (template_search (PStr ''Unknown'')) (sim_world [])
      = (Inr (PList []), ?w1)"
    by (simp add: execute_def sim_host_def sim_execute_kw_def sim_world_def call_defs)
  note t = resolution_failure_short_circuits [OF 1 2 3, of sim_host "sim_world []" Odd_temp_veb]
  from t e have f: "find_worksheet_template_by_name sim_host (PStr ''Unknown'') (sim_world [])
      = (Inr (PNone, PNone), ?w1)"
    by (metis list.distinct(1) list.exhaust truthy.simps(5))
  from t f show ?thesis by (metis fst_conv truthy.simps(1))
qed

subsection \<open>Layout names\<close>

lemma replace_dots_id: "CHR ''.'' \<notin> set a \<Longrightarrow> replace_dots a = a"
  by (induction a) (auto simp: replace_dots_def)

text \<open>
  Claim C5, as the code has it. The layout name is a function of the model name alone. Two
  model names have the same layout name exactly when they agree once every dot is replaced
  by an underscore; two different model names without a dot have different layout names.
\<close>

theorem layout_name_deterministic:
  "(view_name (PStr a) = view_name (PStr b) \<longleftrightarrow> replace_dots a = replace_dots b)
   \<and> (CHR ''.'' \<notin> set a \<and> CHR ''.'' \<notin> set b \<and> a \<noteq> b
        \<longrightarrow> view_name (PStr a) \<noteq> view_name (PStr b))"
  by (auto simp: replace_dots_id)

text \<open>
  An instance of C5: two model names without a dot.
\<close>

theorem layout_name_deterministic_witness:
  "view_name (PStr ''x_fsm_vibration'') \<noteq> view_name (PStr ''x_fsm_hermeticity'')"
proof -
  have "CHR ''.'' \<notin> set ''x_fsm_vibration'' \<and> CHR ''.'' \<notin> set ''x_fsm_hermeticity''
        \<and> ''x_fsm_vibration'' \<noteq> ''x_fsm_hermeticity''"
    by simp
  with layout_name_deterministic [of "''x_fsm_vibration''" "''x_fsm_hermeticity''"]
  show ?thesis by blast
qed

text \<open>
  Claim C5 as stated asks that two different model names yield two different layout names.
  The names \<^verbatim>\<open>x_fsm.vibration\<close> and \<^verbatim>\<open>x_fsm_vibration\<close> yield the same one.
\<close>

theorem layout_name_collision:
  "view_name (PStr ''x_fsm.vibration'') = view_name (PStr ''x_fsm_vibration'')
   \<and> PStr ''x_fsm.vibration'' \<noteq> PStr ''x_fsm_vibration''"
  by (simp add: replace_dots_def)

subsection \<open>Unknown type tags\<close>

lemma unknown_tag_char:
  assumes "hashable tag" and "tag \<notin> PStr ` set field_type_vocabulary"
  shows "field_type_map_get tag = Inr ''char''"
  using assms by (cases tag) auto

lemma given_default_override:
  "given_default (PDict ((''field_type'', v) # kvs)) = given_default (PDict kvs)"
  by (simp add: given_default_def cong del: if_weak_cong)

lemma field_values_char:
  assumes "map_of kvs ''field_type'' = Some tag" and "field_type_map_get tag = Inr ''char''"
  shows "field_values_of s h (PDict ((''field_type'', PStr ''char'') # kvs)) nm mid
           = field_values_of s h (PDict kvs) nm mid"
  using assms
  by (simp add: field_values_of_def ebind_def given_default_override field_type_vocabulary_def
      cong del: if_weak_cong)

lemma create_body_char:
  assumes "map_of kvs ''field_type'' = Some tag" and "field_type_map_get tag = Inr ''char''"
  shows "create_body s h m (PDict ((''field_type'', PStr ''char'') # kvs)) nm
           = create_body s h m (PDict kvs) nm"
  unfolding create_body_def
  by (simp add: field_values_char [OF assms] given_default_override cong del: if_weak_cong)

lemma field_values_ttype:
  assumes "map_of kvs ''field_type'' = Some tag" and "field_type_map_get tag = Inr ''char''"
    and "map_of kvs ''label'' = Some label"
  shows "\<exists>vals. field_values_of s h (PDict kvs) nm mid = Inr vals
           \<and> map_of vals ''ttype'' = Some (PStr ''char'')"
  using assms
  by (auto simp: field_values_of_def ebind_def given_default_def split: option.splits)

lemma create_body_attempts:
  assumes "execute h (model_search m) w1 = (Inr ids, w2)" and "truthy ids"
    and "index0 ids = Inr mid" and "field_values_of s h fc nm mid = Inr vals"
  shows "field_create vals \<in> set (trace (snd (create_body s h m fc nm w1)))"
proof -
  let ?rest = "\<lambda>field_id. if s = Odd_temp_veb
     then bind (lift (given_default fc)) (\<lambda>dflt.
          case dflt of
            None \<Rightarrow> ret True
          | Some v \<Rightarrow> bind (set_field_default h m nm v) (\<lambda>r. ret True))
     else ret True"
  have "\<And>x. issues (\<lambda>c. True) (?rest x)"
    by (intro issues_try issues_bind issues_if issues_ret issues_lift issues_execute issues_option
        issues_weaken [OF set_default_issues] TrueI)
  then obtain cs where "trace (snd (bind (execute h (field_create vals)) ?rest w2))
      = trace w2 @ field_create vals # cs"
    using bind_execute_trace [of "\<lambda>c. True" ?rest h "field_create vals" w2] by blast
  moreover have "create_body s h m fc nm w1 = bind (execute h (field_create vals)) ?rest w2"
    using assms by (simp add: create_body_def bind_def lift_def)
  ultimately show ?thesis by simp
qed

text \<open>
  Claim C6. A declaration whose type tag is a hashable value outside the vocabulary is
  mapped to \<^verbatim>\<open>char\<close>, and \<^verbatim>\<open>create_field\<close> does on it exactly what it does on the same
  declaration with the tag \<^verbatim>\<open>char\<close>. When the field does not exist, the model is found and
  the declaration has a label, the creation call is issued, with the type \<^verbatim>\<open>char\<close>.
\<close>

theorem unknown_type_tag_defaults_to_char:
  assumes "map_of kvs ''field_type'' = Some tag"
    and "hashable tag"
    and "tag \<notin> PStr ` set field_type_vocabulary"
  shows "field_type_map_get tag = Inr ''char''
       \<and> create_field s h m (PDict kvs) w
           = create_field s h m (PDict ((''field_type'', PStr ''char'') # kvs)) w
       \<and> (\<forall>nm label w1 ids w2 mid.
             map_of kvs ''name'' = Some nm \<and> map_of kvs ''label'' = Some label
             \<and> check_field_exists h m nm w = (Inr False, w1)
             \<and> execute h (model_search m) w1 = (Inr ids, w2)
             \<and> truthy ids \<and> index0 ids = Inr mid
             \<longrightarrow> (\<exists>vals. field_values_of s h (PDict kvs) nm mid = Inr vals
                    \<and> map_of vals ''ttype'' = Some (PStr ''char'')
                    \<and> field_create vals \<in> set (trace (snd (create_field s h m (PDict kvs) w)))))"
proof -
  have c: "field_type_map_get tag = Inr ''char''"
    using assms(2,3) by (rule unknown_tag_char)
  have e: "create_field s h m (PDict kvs) w
           = create_field s h m (PDict ((''field_type'', PStr ''char'') # kvs)) w"
    by (simp add: create_field_def create_body_char [OF assms(1) c] cong del: if_weak_cong)
  have a: "\<exists>vals. field_values_of s h (PDict kvs) nm mid = Inr vals
                    \<and> map_of vals ''ttype'' = Some (PStr ''char'')
                    \<and> field_create vals \<in> set (trace (snd (create_field s h m (PDict kvs) w)))"
    if h: "map_of kvs ''name'' = Some nm" "map_of kvs ''label'' = Some label"
      "check_field_exists h m nm w = (Inr False, w1)"
      "execute h (model_search m) w1 = (Inr ids, w2)" "truthy ids" "index0 ids = Inr mid"
    for nm label w1 ids w2 mid
  proof -
    obtain vals where v: "field_values_of s h (PDict kvs) nm mid = Inr vals"
        "map_of vals ''ttype'' = Some (PStr ''char'')"
      using field_values_ttype [OF assms(1) c h(2)] by blast
    have "snd (create_field s h m (PDict kvs) w) = snd (create_body s h m (PDict kvs) nm w1)"
      using h(1,3) by (simp add: create_field_def bind_def lift_def snd_try_except)
    then have "field_create vals \<in> set (trace (snd (create_field s h m (PDict kvs) w)))"
      using create_body_attempts [OF h(4,5,6) v(1)] by simp
    with v show ?thesis by blast
  qed
  from c e a show ?thesis by blast
qed

text \<open>
  An instance of C6: the tag \<^verbatim>\<open>number\<close>.
\<close>

theorem unknown_type_tag_defaults_to_char_witness:
  "field_type_map_get (PStr ''number'') = Inr ''char''
   \<and> field_create [(''name'', PStr ''x_reading''), (''field_description'', PStr ''Reading''),
         (''model_id'', PInt 7), (''ttype'', PStr ''char''), (''state'', PStr ''manual''),
         (''required'', PBool False), (''readonly'', PBool False)]
       \<in> set (trace (snd (create_field Odd_temp_veb sim_host sim_model odd_field (sim_world []))))"
proof -
  let ?kvs = "[(''name'', PStr ''x_reading''), (''field_type'', PStr ''number''),
            (''label'', PStr ''Reading'')]"
  let ?w1 = "\<lparr>remote = \<lparr>sim_fields = [], sim_views = []\<rparr>,
       trace = [field_search sim_model (PStr ''x_reading'')]\<rparr>"
  let ?w2 = "\<lparr>remote = \<lparr>sim_fields = [], sim_views = []\<rparr>,
       trace = [field_search sim_model (PStr ''x_reading''), model_search sim_model]\<rparr>"
  have 1: "map_of ?kvs ''field_type'' = Some (PStr ''number'')" by simp
  have 2: "hashable (PStr ''number'')" by simp
  have 3: "PStr ''number'' \<notin> PStr ` set field_type_vocabulary"
    by (simp add: field_type_vocabulary_def)
  have 4: "check_field_exists sim_host sim_model (PStr ''x_reading'') (sim_world []) = (Inr False, ?w1)"
    by (simp add: check_field_exists_def prog_defs sim_host_def sim_world_def sim_execute_kw_def
        field_search_def template_search_def template_read_def model_read_def model_search_def
        sim_model_def is_field_search_def)
  have 5: "execute sim_host (model_search sim_model) ?w1 = (Inr (PList [PInt 7]), ?w2)"
    by (simp add: prog_defs sim_host_def sim_execute_kw_def
        field_search_def template_search_def template_read_def model_read_def model_search_def
        sim_model_def)
  have 6: "field_values_of Odd_temp_veb sim_host (PDict ?kvs) (PStr ''x_reading'') (PInt 7)
      = Inr [(''name'', PStr ''x_reading''), (''field_description'', PStr ''Reading''),
         (''model_id'', PInt 7), (''ttype'', PStr ''char''), (''state'', PStr ''manual''),
         (''required'', PBool False), (''readonly'', PBool False)]"
    by (simp add: field_values_of_def ebind_def field_type_vocabulary_def)
  from unknown_type_tag_defaults_to_char [OF 1 2 3, of Odd_temp_veb sim_host sim_model "sim_world []"]
  have c: "field_type_map_get (PStr ''number'') = Inr ''char''"
    and a: "\<And>nm label w1 ids w2 mid.
             map_of ?kvs ''name'' = Some nm \<and> map_of ?kvs ''label'' = Some label
             \<and> check_field_exists sim_host sim_model nm (sim_world []) = (Inr False, w1)
             \<and> execute sim_host (model_search sim_model) w1 = (Inr ids, w2)
             \<and> truthy ids \<and> index0 ids = Inr mid
             \<Longrightarrow> (\<exists>vals. field_values_of Odd_temp_veb sim_host (PDict ?kvs) nm mid = Inr vals
                    \<and> map_of vals ''ttype'' = Some (PStr ''char'')
                    \<and> field_create vals \<in> set (trace (snd (create_field Odd_temp_veb sim_host sim_model (PDict ?kvs) (sim_world [])))))"
    by blast+
  have "\<exists>vals. field_values_of Odd_temp_veb sim_host (PDict ?kvs) (PStr ''x_reading'') (PInt 7) = Inr vals
                    \<and> map_of vals ''ttype'' = Some (PStr ''char'')
                    \<and> field_create vals \<in> set (trace (snd (create_field Odd_temp_veb sim_host sim_model (PDict ?kvs) (sim_world []))))"
    using a [of "PStr ''x_reading''" "PStr ''Reading''" ?w1 "PList [PInt 7]" ?w2 "PInt 7"] 4 5
    by simp
  with 6 c show ?thesis by (auto simp: odd_field_def)
qed

subsection \<open>A failing existence query\<close>

text \<open>
  Claim C7. When the existence query raises, \<^verbatim>\<open>check_field_exists\<close> returns \<^verbatim>\<open>False\<close>, and
  \<^verbatim>\<open>create_field\<close> neither raises nor skips the field: its next call is the search for the
  model, the first step of the creation.
\<close>

theorem existence_check_fails_open:
  assumes "fst (execute_kw h (remote w) (field_search m nm)) = None"
  shows "fst (check_field_exists h m nm w) = Inr False
       \<and> (\<forall>fc. subscript ''name'' fc = Inr nm \<longrightarrow>
            (\<exists>b cs. fst (create_field s h m fc w) = Inr b
               \<and> new_calls w (snd (create_field s h m fc w))
                   = field_search m nm # model_search m # cs))"
proof -
  have f: "fst (check_field_exists h m nm w) = Inr False"
    using assms by (rule check_fault)
  have "\<exists>b cs. fst (create_field s h m fc w) = Inr b
               \<and> new_calls w (snd (create_field s h m fc w))
                   = field_search m nm # model_search m # cs"
    if n: "subscript ''name'' fc = Inr nm" for fc
  proof -
    obtain w1 where c: "check_field_exists h m nm w = (Inr False, w1)"
      using f by (cases "check_field_exists h m nm w") auto
    have t1: "trace w1 = trace w @ [field_search m nm]"
      using check_trace [of h m nm w] c by simp
    obtain cs where cs: "trace (snd (create_body s h m fc nm w1)) = trace w1 @ model_search m # cs"
      using create_body_first_call by blast
    have "snd (create_field s h m fc w) = snd (create_body s h m fc nm w1)"
      using n c by (simp add: create_field_def bind_def lift_def snd_try_except)
    then have "new_calls w (snd (create_field s h m fc w)) = field_search m nm # model_search m # cs"
      using cs t1 by (simp add: new_calls_append)
    moreover obtain b where "fst (create_field s h m fc w) = Inr b"
      using create_field_returns [OF n] by blast
    ultimately show ?thesis by blast
  qed
  with f show ?thesis by blast
qed

text \<open>
  An instance of C7: a remote that cannot be reached.
\<close>

theorem existence_check_fails_open_witness:
  "fst (check_field_exists offline_host sim_model (PStr ''x_test_objective'') offline_world) = Inr False
   \<and> take 2 (new_calls offline_world
        (snd (create_field Odd_temp_veb offline_host sim_model objective_field offline_world)))
      = [field_search sim_model (PStr ''x_test_objective''), model_search sim_model]"
proof -
  have a: "fst (execute_kw offline_host (remote offline_world)
             (field_search sim_model (PStr ''x_test_objective''))) = None"
    by (simp add: offline_host_def)
  have n: "subscript ''name'' objective_field = Inr (PStr ''x_test_objective'')"
    by (simp add: objective_field_def)
  from existence_check_fails_open [OF a, of Odd_temp_veb] n
  obtain cs where "fst (check_field_exists offline_host sim_model (PStr ''x_test_objective'') offline_world) = Inr False"
    and "new_calls offline_world
        (snd (create_field Odd_temp_veb offline_host sim_model objective_field offline_world))
      = field_search sim_model (PStr ''x_test_objective'') # model_search sim_model # cs"
    by blast
  then show ?thesis by simp
qed

subsection \<open>Layout dispatch\<close>

lemma is_prefix_iff: "is_prefix xs ys \<longleftrightarrow> (\<exists>suf. ys = xs @ suf)"
  by (induction xs ys rule: is_prefix.induct) auto

lemma substring_iff: "substring sub s \<longleftrightarrow> (\<exists>pre suf. s = pre @ sub @ suf)"
proof (induction s)
  case Nil
  show ?case by (auto simp: is_prefix_iff)
next
  case (Cons c cs)
  show ?case
  proof
    assume "substring sub (c # cs)"
    then consider "is_prefix sub (c # cs)" | "substring sub cs" by auto
    then show "\<exists>pre suf. c # cs = pre @ sub @ suf"
    proof cases
      case 1
      then obtain suf where "c # cs = sub @ suf" by (auto simp: is_prefix_iff)
      then have "c # cs = [] @ sub @ suf" by simp
      then show ?thesis by blast
    next
      case 2
      then obtain pre suf where "cs = pre @ sub @ suf" using Cons.IH by blast
      then have "c # cs = (c # pre) @ sub @ suf" by simp
      then show ?thesis by blast
    qed
  next
    assume "\<exists>pre suf. c # cs = pre @ sub @ suf"
    then obtain pre suf where e: "c # cs = pre @ sub @ suf" by blast
    show "substring sub (c # cs)"
    proof (cases pre)
      case Nil
      with e have "is_prefix sub (c # cs)" by (auto simp: is_prefix_iff)
      then show ?thesis by simp
    next
      case (Cons p ps)
      with e have "cs = ps @ sub @ suf" by simp
      then have "substring sub cs" using Cons.IH by blast
      then show ?thesis by simp
    qed
  qed
qed

text \<open>
  Claim C8. For a template configuration whose template code is a string (the empty
  string when the key is absent), \<^verbatim>\<open>generate_worksheet_xml\<close> of odoo_template_temp.py is the
  temperature generator when the lower-cased code contains \<^verbatim>\<open>temperatura\<close>, and the
  hermiticity generator otherwise.
\<close>

theorem layout_dispatch_on_template_code:
  assumes "get_method ''template_code'' (PStr []) cfg = Inr (PStr code)"
  shows "generate_worksheet_xml cfg =
           (if (\<exists>pre suf. map lower_char code = pre @ ''temperatura'' @ suf)
            then generate_worksheet_xml_temperatura cfg
            else generate_worksheet_xml_hermiticity cfg)"
  using assms by (simp add: generate_worksheet_xml_def ebind_def substring_iff)

text \<open>
  Two instances of C8: the code \<^verbatim>\<open>TEST_TEMPERATURA\<close>, and a configuration without a code.
\<close>

theorem layout_dispatch_on_template_code_witness:
  "generate_worksheet_xml (temperatura_config (PList [])) =
     generate_worksheet_xml_temperatura (temperatura_config (PList []))
   \<and> generate_worksheet_xml (vibration_template []) =
     generate_worksheet_xml_hermiticity (vibration_template [])"
proof -
  have c1: "get_method ''template_code'' (PStr []) (temperatura_config (PList []))
              = Inr (PStr ''TEST_TEMPERATURA'')"
    by (simp add: temperatura_config_def)
  have "map lower_char ''TEST_TEMPERATURA'' = ''test_'' @ ''temperatura'' @ []"
    by (simp add: lower_char_def)
  then have e1: "\<exists>pre suf. map lower_char ''TEST_TEMPERATURA'' = pre @ ''temperatura'' @ suf"
    by blast
  have c2: "get_method ''template_code'' (PStr []) (vibration_template []) = Inr (PStr [])"
    by (simp add: vibration_template_def)
  have e2: "\<not> (\<exists>pre suf. map lower_char [] = pre @ ''temperatura'' @ suf)"
    by simp
  show ?thesis
    using layout_dispatch_on_template_code [OF c1] layout_dispatch_on_template_code [OF c2] e1 e2
    by presburger
qed

subsection \<open>Layouts and the declared fields\<close>

text \<open>
  Claim C9. Two template configurations with the same \<^verbatim>\<open>template_name\<close> entry get the same
  output from the hermiticity, the temperature and the centrifuge generator, whatever
  else they hold; when their \<^verbatim>\<open>template_code\<close> entries agree as well, the dispatching
  generator gives the same output too.
\<close>

theorem layouts_ignore_fields:
  assumes "subscript ''template_name'' c1 = subscript ''template_name'' c2"
  shows "generate_worksheet_xml_hermiticity c1 = generate_worksheet_xml_hermiticity c2
       \<and> generate_worksheet_xml_temperatura c1 = generate_worksheet_xml_temperatura c2
       \<and> generate_worksheet_xml_centrifuge c1 = generate_worksheet_xml_centrifuge c2
       \<and> (get_method ''template_code'' (PStr []) c1 = get_method ''template_code'' (PStr []) c2
            \<longrightarrow> generate_worksheet_xml c1 = generate_worksheet_xml c2)"
proof -
  have h: "generate_worksheet_xml_hermiticity c1 = generate_worksheet_xml_hermiticity c2"
    using assms by (simp add: generate_worksheet_xml_hermiticity_def)
  have t: "generate_worksheet_xml_temperatura c1 = generate_worksheet_xml_temperatura c2"
    using assms by (simp add: generate_worksheet_xml_temperatura_def)
  have c: "generate_worksheet_xml_centrifuge c1 = generate_worksheet_xml_centrifuge c2"
    using assms by (simp add: generate_worksheet_xml_centrifuge_def)
  have "generate_worksheet_xml c1 = generate_worksheet_xml c2"
    if "get_method ''template_code'' (PStr []) c1 = get_method ''template_code'' (PStr []) c2"
    using that by (simp add: generate_worksheet_xml_def h t cong del: if_weak_cong)
  with h t c show ?thesis by blast
qed

text \<open>
  An instance of C9: two configurations that differ in their field lists only.
\<close>

theorem layouts_ignore_fields_witness:
  "generate_worksheet_xml (temperatura_config (PList [])) =
     generate_worksheet_xml (temperatura_config (PList [objective_field]))
   \<and> temperatura_config (PList []) \<noteq> temperatura_config (PList [objective_field])"
proof -
  have n: "subscript ''template_name'' (temperatura_config (PList [])) =
        subscript ''template_name'' (temperatura_config (PList [objective_field]))"
    by (simp add: temperatura_config_def)
  have c: "get_method ''template_code'' (PStr []) (temperatura_config (PList [])) =
        get_method ''template_code'' (PStr []) (temperatura_config (PList [objective_field]))"
    by (simp add: temperatura_config_def)
  have "generate_worksheet_xml (temperatura_config (PList [])) =
     generate_worksheet_xml (temperatura_config (PList [objective_field]))"
    using layouts_ignore_fields [OF n] c by blast
  moreover have "temperatura_config (PList []) \<noteq> temperatura_config (PList [objective_field])"
    by (simp add: temperatura_config_def)
  ultimately show ?thesis by blast
qed

subsection \<open>A template file that cannot be loaded\<close>

text \<open>
  Claim C10. When the template file cannot be read or parsed, \<^verbatim>\<open>design_template\<close> of every
  script returns \<^verbatim>\<open>{'success': False, 'error': str(e)}\<close> and leaves the world as it was: no
  remote call is issued.
\<close>

theorem load_failure_issues_no_call:
  "design_template s h (Inl msg) w = (Inr (LoadFailed msg), w)
   \<and> \<not> success_of (LoadFailed msg)
   \<and> new_calls w (snd (design_template s h (Inl msg) w)) = []"
  by (simp add: design_template_def ret_def new_calls_def)

text \<open>
  An instance of C10: a file that is not JSON.
\<close>

theorem load_failure_issues_no_call_witness:
  "design_template Odoo_template_temp sim_host (Inl ''Expecting value: line 1 column 1 (char 0)'') (sim_world [])
     = (Inr (LoadFailed ''Expecting value: line 1 column 1 (char 0)''), sim_world [])"
  using load_failure_issues_no_call
    [of Odoo_template_temp sim_host "''Expecting value: line 1 column 1 (char 0)''" "sim_world []"]
  by (rule conjunct1)

end
